theory Spec2Isabelle
  imports Complex_Main "HOL-Library.Sublist" "HOL-Library.Char_ord" "HOL-Library.List_Lexorder"
begin

section \<open>Python values and string primitives\<close>

text \<open>
  The functions of \<^verbatim>\<open>app.py\<close> receive spreadsheet cells: a missing cell is
  \<^verbatim>\<open>None\<close> or NaN, a cell read with another type is a number, anything else is a
  \<^verbatim>\<open>str\<close>. Strings are modelled as \<^typ>\<open>string\<close> over ASCII text: \<^verbatim>\<open>upper\<close>,
  \<^verbatim>\<open>lower\<close> and \<^verbatim>\<open>strip\<close> act on the ASCII letters and the ASCII white space.
\<close>

datatype pyval = PyNone | PyNaN | PyNum int | PyStr string

definition lowers :: string where
  "lowers = ''abcdefghijklmnopqrstuvwxyz''"

definition uppers :: string where
  "uppers = ''ABCDEFGHIJKLMNOPQRSTUVWXYZ''"

definition upper_char :: "char \<Rightarrow> char" where
  "upper_char c = (case map_of (zip lowers uppers) c of Some u \<Rightarrow> u | None \<Rightarrow> c)"

definition lower_char :: "char \<Rightarrow> char" where
  "lower_char c = (case map_of (zip uppers lowers) c of Some l \<Rightarrow> l | None \<Rightarrow> c)"

text \<open>\<^verbatim>\<open>str.upper()\<close> and \<^verbatim>\<open>str.lower()\<close>.\<close>

definition upper :: "string \<Rightarrow> string" where
  "upper s = map upper_char s"

definition lower :: "string \<Rightarrow> string" where
  "lower s = map lower_char s"

text \<open>The characters \<^verbatim>\<open>str.strip()\<close> removes: tab, line feed, vertical tab, form feed,
  carriage return, the four separators 0x1C to 0x1F, and the space.\<close>

definition is_space :: "char \<Rightarrow> bool" where
  "is_space c = (c \<in> set [CHR 0x09, CHR 0x0A, CHR 0x0B, CHR 0x0C, CHR 0x0D,
                            CHR 0x1C, CHR 0x1D, CHR 0x1E, CHR 0x1F, CHR '' ''])"

definition strip :: "string \<Rightarrow> string" where
  "strip s = rev (dropWhile is_space (rev (dropWhile is_space s)))"

text \<open>\<^verbatim>\<open>sub in s\<close> on strings: \<open>sub\<close> occurs in \<open>s\<close> as a contiguous run.\<close>

fun str_contains :: "string \<Rightarrow> string \<Rightarrow> bool" where
  "str_contains sub [] = (sub = [])"
| "str_contains sub (c # cs) = (prefix sub (c # cs) \<or> str_contains sub cs)"

text \<open>\<^verbatim>\<open>s.replace(old, new)\<close>: every non-overlapping occurrence of \<open>old\<close>, from the
  left, becomes \<open>new\<close>; an empty \<open>old\<close> matches before every character and at the end.\<close>

function replace_str :: "string \<Rightarrow> string \<Rightarrow> string \<Rightarrow> string" where
  "replace_str old new [] = (if old = [] then new else [])"
| "replace_str old new (c # cs) =
     (if old = [] then new @ c # replace_str old new cs
      else if prefix old (c # cs) then new @ replace_str old new (drop (length old) (c # cs))
      else c # replace_str old new cs)"
  by pat_completeness auto
termination
  by (relation "measure (\<lambda>(old, new, s). length s)") auto

section \<open>Company-name normalizer\<close>

definition empty_patterns :: "(string \<times> string list) list" where
  "empty_patterns =
    [(''COMPLETELY EMPTY'', ['''', ''-'', ''.'', '' '', ''...'', ''*'', ''#'', ''//'']),
     (''PLACEHOLDER'', [''#N/A'', ''N/A'', ''NA'', ''N.A.'', ''N/A.'', ''NONE'', ''NIL'',
        ''NOT APPLICABLE'', ''NOT AVAILABLE'', ''UNKNOWN'']),
     (''CONFIDENTIAL'', [''CONFIDENTIAL'', ''CONFIDENTIAL GOVERNMENT'', ''GOVERNMENT'',
        ''GOVERNMENT SECTOR'', ''CONFIDENTIAL (STEALTH MODE)'',
        ''CONFIDENTIAL ( STEALTH MODE )'', ''CONFIDENTIAL COMPANY'',
        ''CANNOT DISCLOSE'', ''UNDISCLOSED'']),
     (''OTHERS'', [''OTHERS'', ''OTHER'', ''MISC'', ''MISCELLANEOUS'', ''TBD'',
        ''TO BE DETERMINED'', ''PENDING'']),
     (''NOT WORKING'', [''NOT WORKING'', ''UNEMPLOYED'', ''NO JOB'', ''NO WORK'',
        ''LOOKING FOR JOB'', ''SEEKING EMPLOYMENT''])]"

definition company_aliases :: "(string \<times> string) list" where
  "company_aliases =
    [(''SNB'', ''SAUDI NATIONAL BANK''),
     (''SAUDI NATIONAL BANK'', ''SAUDI NATIONAL BANK''),
     (''SNB CAPITAL'', ''SAUDI NATIONAL BANK''),
     (''THE SAUDI NATIONAL BANK'', ''SAUDI NATIONAL BANK''),
     (''NCB'', ''SAUDI NATIONAL BANK''),
     (''BSF'', ''BANQUE SAUDI FRANSI''),
     (''BANQUE SAUDI FRANSI'', ''BANQUE SAUDI FRANSI''),
     (''BANQUE SAUDI FRANSI CAPITAL'', ''BANQUE SAUDI FRANSI''),
     (''FRANSI CAPITAL'', ''BANQUE SAUDI FRANSI''),
     (''SAB'', ''SAUDI BRITISH BANK''),
     (''SABB'', ''SAUDI BRITISH BANK''),
     (''BANK SAB'', ''SAUDI BRITISH BANK''),
     (''PIF'', ''PUBLIC INVESTMENT FUND''),
     (''PUBLIC INVESTMENT FUND - PIF'', ''PUBLIC INVESTMENT FUND''),
     (''SAMA'', ''SAUDI CENTRAL BANK''),
     (''SAUDI CENTRAL BANK - SAMA'', ''SAUDI CENTRAL BANK''),
     (''SIDF'', ''SAUDI INDUSTRIAL DEVELOPMENT FUND''),
     (''SAUDI INDUSTRIAL DEVELOPMENT FUND - SIDF'', ''SAUDI INDUSTRIAL DEVELOPMENT FUND''),
     (''BCG'', ''BOSTON CONSULTING GROUP''),
     (''BOSTON CONSULTING GROUP (BCG)'', ''BOSTON CONSULTING GROUP''),
     (''EY'', ''ERNST & YOUNG''),
     (''ERNST & YOUNG (EY)'', ''ERNST & YOUNG''),
     (''PWC'', ''PRICEWATERHOUSECOOPERS''),
     (''KFSH&RC'', ''KING FAISAL SPECIALIST HOSPITAL & RESEARCH CENTER''),
     (''KFSHRC'', ''KING FAISAL SPECIALIST HOSPITAL & RESEARCH CENTER''),
     (''KFSH'', ''KING FAISAL SPECIALIST HOSPITAL & RESEARCH CENTER''),
     (''KING FAISAL SPECIALIST HOSPITAL'', ''KING FAISAL SPECIALIST HOSPITAL & RESEARCH CENTER''),
     (''HABIB'', ''DR. SULAIMAN AL HABIB MEDICAL GROUP''),
     (''DR. SULAIMAN AL HABIB'', ''DR. SULAIMAN AL HABIB MEDICAL GROUP''),
     (''STC'', ''SAUDI TELECOM COMPANY''),
     (''SAUDI TELECOM'', ''SAUDI TELECOM COMPANY''),
     (''HPE'', ''HEWLETT PACKARD ENTERPRISE''),
     (''HEWLETT PACKARD ENTERPRISE - HPE'', ''HEWLETT PACKARD ENTERPRISE''),
     (''ARAMCO'', ''SAUDI ARAMCO''),
     (''SAUDI ARAMCO'', ''SAUDI ARAMCO''),
     (''SABIC'', ''SAUDI BASIC INDUSTRIES CORPORATION''),
     (''MINISTRY OF HEALTH'', ''MINISTRY OF HEALTH''),
     (''MINISTRY OF HEALTH '', ''MINISTRY OF HEALTH'')]"

definition remove_words :: "string list" where
  "remove_words =
    [''LTD'', ''LIMITED'', ''CORPORATION'', ''CORP'', ''INC'', ''LLC'', ''CO'',
     ''COMPANY'', ''GROUP'', ''HOLDING'', ''HOLDINGS'', ''INTERNATIONAL'',
     ''SAUDI ARABIA'', ''KSA'', ''MIDDLE EAST'']"

text \<open>The loop over \<^verbatim>\<open>empty_patterns.items()\<close>: the first category whose list holds the
  name.\<close>

fun empty_category :: "(string \<times> string list) list \<Rightarrow> string \<Rightarrow> string option" where
  "empty_category [] name = None"
| "empty_category ((category, patterns) # rest) name =
     (if name \<in> set patterns then Some category else empty_category rest name)"

text \<open>The loop \<^verbatim>\<open>for word in remove_words: name = name.replace(f' {word}', '')\<close>.\<close>

fun strip_words :: "string list \<Rightarrow> string \<Rightarrow> string" where
  "strip_words [] name = name"
| "strip_words (word # rest) name = strip_words rest (replace_str (CHR '' '' # word) [] name)"

definition normalize_company_name :: "pyval \<Rightarrow> string" where
  "normalize_company_name v =
     (case v of
        PyNone \<Rightarrow> ''EMPTY (NULL)''
      | PyNaN \<Rightarrow> ''EMPTY (NULL)''
      | PyNum n \<Rightarrow> ''EMPTY (INVALID TYPE)''
      | PyStr raw \<Rightarrow>
          (let name = upper (strip raw) in
           case empty_category empty_patterns name of
             Some category \<Rightarrow> ''EMPTY ('' @ category @ '')''
           | None \<Rightarrow>
               (case map_of company_aliases name of
                  Some canonical \<Rightarrow> canonical
                | None \<Rightarrow>
                    (let name' = strip_words remove_words name in
                     if str_contains ''NATIONAL GUARD'' name' \<and> str_contains ''HEALTH'' name'
                     then ''MINISTRY OF NATIONAL GUARD HEALTH AFFAIRS''
                     else if str_contains ''KING FAHAD MEDICAL'' name'
                     then ''KING FAHAD MEDICAL CITY''
                     else strip name'))))"

text \<open>A normalized name on which a second pass changes nothing: it is in neither table
  (or is an alias that maps to itself), holds no space-prefixed suffix word and triggers
  neither special case.\<close>

definition stable_name :: "string \<Rightarrow> bool" where
  "stable_name y =
     (empty_category empty_patterns y = None \<and>
      (map_of company_aliases y = Some y \<or>
       (map_of company_aliases y = None \<and>
        \<not> list_ex (\<lambda>word. str_contains (CHR '' '' # word) y) remove_words \<and>
        \<not> (str_contains ''NATIONAL GUARD'' y \<and> str_contains ''HEALTH'' y) \<and>
        \<not> str_contains ''KING FAHAD MEDICAL'' y)))"

section \<open>Job-title seniority classifier\<close>

text \<open>The regular expression \<^verbatim>\<open>\b\<close> + \<^verbatim>\<open>re.escape(keyword)\<close> + \<^verbatim>\<open>\b\<close>: the
  keyword occurs literally, with a word boundary on each side. A word character is a
  letter, a digit or the underscore; a boundary lies between a word character and a
  character that is none, or the end of the text.\<close>

definition is_word_char :: "char \<Rightarrow> bool" where
  "is_word_char c = (c \<in> set lowers \<or> c \<in> set uppers \<or> c \<in> set ''0123456789_'')"

definition word_boundary :: "string \<Rightarrow> string \<Rightarrow> bool" where
  "word_boundary pre post =
     ((pre \<noteq> [] \<and> is_word_char (last pre)) \<noteq> (post \<noteq> [] \<and> is_word_char (hd post)))"

definition matches_at :: "string \<Rightarrow> string \<Rightarrow> string \<Rightarrow> bool" where
  "matches_at keyword pre post =
     (prefix keyword post \<and> word_boundary pre post \<and>
      word_boundary (pre @ keyword) (drop (length keyword) post))"

text \<open>\<^verbatim>\<open>re.search\<close>: a match at some position of the text; \<open>pre\<close> is the text
  already passed.\<close>

fun re_search_word :: "string \<Rightarrow> string \<Rightarrow> string \<Rightarrow> bool" where
  "re_search_word keyword pre [] = matches_at keyword pre []"
| "re_search_word keyword pre (c # cs) =
     (matches_at keyword pre (c # cs) \<or> re_search_word keyword (pre @ [c]) cs)"

definition high_position_mapping :: "(string \<times> string) list" where
  "high_position_mapping =
    [(''CEO'', ''CHIEF EXECUTIVE OFFICER''),
     (''CHIEF EXECUTIVE OFFICER'', ''CHIEF EXECUTIVE OFFICER''),
     (''PRESIDENT'', ''PRESIDENT''),
     (''CFO'', ''CHIEF FINANCIAL OFFICER''),
     (''CHIEF FINANCIAL OFFICER'', ''CHIEF FINANCIAL OFFICER''),
     (''CTO'', ''CHIEF TECHNOLOGY OFFICER''),
     (''CHIEF TECHNOLOGY OFFICER'', ''CHIEF TECHNOLOGY OFFICER''),
     (''CIO'', ''CHIEF INFORMATION OFFICER''),
     (''CHIEF INFORMATION OFFICER'', ''CHIEF INFORMATION OFFICER''),
     (''COO'', ''CHIEF OPERATING OFFICER''),
     (''CHIEF OPERATING OFFICER'', ''CHIEF OPERATING OFFICER''),
     (''CMO'', ''CHIEF MARKETING OFFICER''),
     (''CHIEF MARKETING OFFICER'', ''CHIEF MARKETING OFFICER''),
     (''CHIEF'', ''CHIEF''),
     (''DIRECTOR'', ''DIRECTOR''),
     (''EXECUTIVE DIRECTOR'', ''EXECUTIVE DIRECTOR''),
     (''MANAGING DIRECTOR'', ''MANAGING DIRECTOR''),
     (''BOARD MEMBER'', ''BOARD MEMBER''),
     (''VP'', ''VICE PRESIDENT''),
     (''VICE PRESIDENT'', ''VICE PRESIDENT''),
     (''SVP'', ''SENIOR VICE PRESIDENT''),
     (''SENIOR VICE PRESIDENT'', ''SENIOR VICE PRESIDENT''),
     (''EVP'', ''EXECUTIVE VICE PRESIDENT''),
     (''EXECUTIVE VICE PRESIDENT'', ''EXECUTIVE VICE PRESIDENT''),
     (''HEAD'', ''HEAD''),
     (''DEPARTMENT HEAD'', ''DEPARTMENT HEAD''),
     (''DIVISION HEAD'', ''DIVISION HEAD''),
     (''GENERAL MANAGER'', ''GENERAL MANAGER''),
     (''PARTNER'', ''PARTNER''),
     (''SENIOR MANAGER'', ''SENIOR MANAGER''),
     (''PRINCIPAL'', ''PRINCIPAL''),
     (''FOUNDER'', ''FOUNDER''),
     (''CO-FOUNDER'', ''CO-FOUNDER''),
     (''OWNER'', ''OWNER'')]"

definition leadership_context :: "string list" where
  "leadership_context = [''OF'', ''DEPARTMENT'', ''DIVISION'', ''TEAM'']"

text \<open>The loop over \<^verbatim>\<open>high_position_mapping.items()\<close>, in insertion order. A keyword
  that is found but fails the context test does not return: the loop goes on.\<close>

fun scan_keywords :: "(string \<times> string) list \<Rightarrow> string \<Rightarrow> string option" where
  "scan_keywords [] position = None"
| "scan_keywords ((keyword, normalized) # rest) position =
     (if re_search_word keyword [] position then
        (if keyword \<in> set [''HEAD'', ''CHIEF'', ''OWNER''] \<and> length keyword < 5 then
           (if list_ex (\<lambda>context. str_contains context position) leadership_context
            then Some normalized
            else scan_keywords rest position)
         else Some normalized)
      else scan_keywords rest position)"

definition is_high_position :: "pyval \<Rightarrow> string option" where
  "is_high_position v =
     (case v of
        PyStr raw \<Rightarrow>
          (let position = upper (strip raw) in
           if position = [] \<or>
              position \<in> set [''-'', ''N/A'', ''NA'', ''NONE'', ''NOT APPLICABLE'', ''UNKNOWN'']
           then None
           else (case map_of high_position_mapping position of
                   Some normalized \<Rightarrow> Some normalized
                 | None \<Rightarrow> scan_keywords high_position_mapping position))
      | _ \<Rightarrow> None)"

section \<open>Datasets and record filters\<close>

text \<open>
  A dataset is a pandas \<^verbatim>\<open>DataFrame\<close> as \<^verbatim>\<open>load_excel_data\<close> caches it: the list of
  its column names and its rows. Every column that exists was filled
  (\<^verbatim>\<open>fillna("").astype(str)\<close>), so a cell is a string; a row maps a column name to its
  cell. Reading a column that the frame does not have raises \<^verbatim>\<open>KeyError\<close>.
\<close>

type_synonym row = "string \<Rightarrow> string"

record dataframe =
  columns :: "string list"
  rows :: "row list"

datatype error = KeyError string

text \<open>The columns a function reads, in the order it reads them: the first one missing is
  the \<^verbatim>\<open>KeyError\<close> raised.\<close>

fun need :: "dataframe \<Rightarrow> string list \<Rightarrow> error option" where
  "need df [] = None"
| "need df (c # cs) = (if c \<in> set (columns df) then need df cs else Some (KeyError c))"

text \<open>\<^verbatim>\<open>str(e)\<close> of a \<^verbatim>\<open>KeyError\<close> is the key in single quotes.\<close>

definition error_message :: "error \<Rightarrow> string" where
  "error_message e = (case e of KeyError c \<Rightarrow> [CHR 0x27] @ c @ [CHR 0x27])"

text \<open>What a report function returns: \<^verbatim>\<open>{"error": message}\<close>, or
  \<^verbatim>\<open>{"status": "success", ...}\<close> together with the workbook it wrote.\<close>

datatype 'a response = Error string | Success 'a

text \<open>\<^verbatim>\<open>str.capitalize()\<close>: the first character in upper case, the rest in lower case.\<close>

definition capitalize :: "string \<Rightarrow> string" where
  "capitalize s = (case s of [] \<Rightarrow> [] | c # cs \<Rightarrow> upper_char c # lower cs)"

definition clean_status :: "pyval \<Rightarrow> string" where
  "clean_status status =
     (case status of PyStr s \<Rightarrow> capitalize (lower (strip s)) | _ \<Rightarrow> ''Unknown'')"

text \<open>The degree filter: a student identifier that starts with \<^verbatim>\<open>G\<close> is a graduate
  student.\<close>

definition degree_filter :: "string \<Rightarrow> row \<Rightarrow> bool" where
  "degree_filter degree_option r =
     (if degree_option = ''bachelor'' then \<not> prefix ''G'' (r ''Student ID'')
      else if degree_option = ''master'' then prefix ''G'' (r ''Student ID'')
      else True)"

definition degree_columns :: "string \<Rightarrow> string list" where
  "degree_columns degree_option =
     (if degree_option = ''bachelor'' \<or> degree_option = ''master'' then [''Student ID''] else [])"

definition gender_filter :: "string \<Rightarrow> row \<Rightarrow> bool" where
  "gender_filter gender_option r =
     (if lower gender_option \<noteq> ''all''
      then lower (strip (r ''Gender'')) = lower gender_option
      else True)"

definition gender_columns :: "string \<Rightarrow> string list" where
  "gender_columns gender_option = (if lower gender_option \<noteq> ''all'' then [''Gender''] else [])"

text \<open>\<^verbatim>\<open>nationality_option and nationality_option.lower() == v\<close>: the option may be
  \<^verbatim>\<open>None\<close>.\<close>

definition option_is :: "string option \<Rightarrow> string \<Rightarrow> bool" where
  "option_is nationality_option v =
     (case nationality_option of None \<Rightarrow> False | Some s \<Rightarrow> s \<noteq> [] \<and> lower s = v)"

section \<open>Workplace statistics\<close>

text \<open>\<^verbatim>\<open>Series.value_counts()\<close>: each distinct value with its number of occurrences, the
  most frequent first; values with the same count stay in the order of their first
  occurrence.\<close>

definition value_counts :: "string list \<Rightarrow> (string \<times> nat) list" where
  "value_counts xs =
     sort_key (\<lambda>(v, n). - int n) (map (\<lambda>v. (v, count_list xs v)) (rev (remdups (rev xs))))"

record workplace_stats =
  top_employers :: "(string \<times> nat) list"
  empty_stats :: "(string \<times> nat) list"
  top_positions :: "(string \<times> nat) list"
  high_positions :: "(string \<times> nat) list"
  nationality_dist :: "(string \<times> nat) list"
  industry_dist :: "(string \<times> nat) list"
  employment_type_dist :: "(string \<times> nat) list"
  total_alumni :: nat
  valid_entries :: nat
  empty_entries :: nat
  high_positions_count :: nat

text \<open>The row mask of \<^verbatim>\<open>get_workplace_statistics\<close>. Only the option \<^verbatim>\<open>saudi\<close> has a
  branch, and only when the frame has the column.\<close>

definition workplace_mask ::
  "dataframe \<Rightarrow> string list \<Rightarrow> string list \<Rightarrow> string \<Rightarrow> string \<Rightarrow> string option \<Rightarrow> row \<Rightarrow> bool" where
  "workplace_mask df colleges years degree_option gender_option nationality_option r =
     (r ''_College'' \<in> set colleges \<and> r ''_Year'' \<in> set years \<and>
      degree_filter degree_option r \<and>
      gender_filter gender_option r \<and>
      (if option_is nationality_option ''saudi'' \<and> ''Nationality'' \<in> set (columns df)
       then strip (r ''Nationality'') = ''Saudi Arabia''
       else True))"

text \<open>The lines \<^verbatim>\<open>get_workplace_statistics\<close> prints.\<close>

definition workplace_warnings :: "dataframe \<Rightarrow> string option \<Rightarrow> string list" where
  "workplace_warnings df nationality_option =
     (if option_is nationality_option ''saudi'' \<and> ''Nationality'' \<notin> set (columns df)
      then [''Warning: Nationality column not found, nationality filter ignored'']
      else [])"

definition optional_counts :: "dataframe \<Rightarrow> string \<Rightarrow> row list \<Rightarrow> (string \<times> nat) list" where
  "optional_counts df c rs =
     (if c \<in> set (columns df) then value_counts (map (\<lambda>r. r c) rs) else [])"

definition get_workplace_statistics ::
  "dataframe \<Rightarrow> string list \<Rightarrow> string list \<Rightarrow> string \<Rightarrow> string \<Rightarrow> string option
     \<Rightarrow> error + workplace_stats" where
  "get_workplace_statistics df colleges years degree_option gender_option nationality_option =
     (case need df ([''_College'', ''_Year''] @ degree_columns degree_option @
                    gender_columns gender_option @ [''Current Workplace'', ''Current Position'']) of
        Some e \<Rightarrow> Inl e
      | None \<Rightarrow>
          (let filtered_df = filter (workplace_mask df colleges years degree_option gender_option
                                       nationality_option) (rows df);
               normalized = (\<lambda>r. normalize_company_name (PyStr (r ''Current Workplace'')));
               empty_mask = (\<lambda>r. prefix ''EMPTY'' (normalized r));
               valid_df = filter (\<lambda>r. \<not> empty_mask r) filtered_df;
               empty_df = filter empty_mask filtered_df;
               high_position = (\<lambda>r. is_high_position (PyStr (r ''Current Position'')));
               high_position_df = filter (\<lambda>r. high_position r \<noteq> None) filtered_df
           in Inr \<lparr>top_employers = take 10 (value_counts (map normalized valid_df)),
                   empty_stats = value_counts (map normalized empty_df),
                   top_positions =
                     take 10 (value_counts (map (\<lambda>r. r ''Current Position'') filtered_df)),
                   high_positions =
                     take 20 (value_counts (map (\<lambda>r. the (high_position r)) high_position_df)),
                   nationality_dist = take 5 (optional_counts df ''Nationality'' filtered_df),
                   industry_dist = take 5 (optional_counts df ''Industry'' filtered_df),
                   employment_type_dist =
                     optional_counts df ''Full Time or Part Time'' filtered_df,
                   total_alumni = length filtered_df,
                   valid_entries = length valid_df,
                   empty_entries = length empty_df,
                   high_positions_count = length high_position_df\<rparr>))"

text \<open>The cache \<^verbatim>\<open>session_data\<close>: per session identifier, the dataset and the name of the
  uploaded file.\<close>

record session_entry =
  data :: dataframe
  file_name :: string

type_synonym sessions = "string \<Rightarrow> session_entry option"

text \<open>The workbook of \<^verbatim>\<open>process_workplace_report\<close>: the summary sheet (the number of
  years is written as \<^verbatim>\<open>"<n> years"\<close>), the three frequency sheets, the share of alumni
  in a high position (written with two decimals) and the industry sheet.\<close>

record workplace_workbook =
  summary_total_alumni :: nat
  summary_valid_entries :: nat
  summary_empty_entries :: nat
  number_of_colleges :: nat
  years_covered :: nat
  degree_level :: string
  empty_analysis :: "(string \<times> nat) list"
  top_employers_sheet :: "(string \<times> nat) list"
  top_positions_sheet :: "(string \<times> nat) list"
  high_position_total :: nat
  high_position_percentage :: real
  industry_sheet :: "(string \<times> nat) list"

definition process_workplace_report ::
  "sessions \<Rightarrow> string \<Rightarrow> string list \<Rightarrow> string list \<Rightarrow> string \<Rightarrow> string \<Rightarrow> string option
     \<Rightarrow> workplace_workbook response" where
  "process_workplace_report session_data session_id colleges years degree_option gender_option
       nationality_option =
     (case session_data session_id of
        None \<Rightarrow> Error ''No data found for your session. Please upload an Excel file first.''
      | Some entry \<Rightarrow>
          (case get_workplace_statistics (data entry) colleges years degree_option gender_option
                  nationality_option of
             Inl e \<Rightarrow> Error (''Error generating workplace report: '' @ error_message e)
           | Inr stats \<Rightarrow>
               Success \<lparr>summary_total_alumni = total_alumni stats,
                         summary_valid_entries = valid_entries stats,
                         summary_empty_entries = empty_entries stats,
                         number_of_colleges = length colleges,
                         years_covered = length years,
                         degree_level = capitalize degree_option,
                         empty_analysis = empty_stats stats,
                         top_employers_sheet = top_employers stats,
                         top_positions_sheet = high_positions stats,
                         high_position_total = high_positions_count stats,
                         high_position_percentage =
                           (if total_alumni stats > 0
                            then real (high_positions_count stats) / real (total_alumni stats) * 100
                            else 0),
                         industry_sheet = industry_dist stats\<rparr>))"

section \<open>QAA employment report: the cross-tab\<close>

definition employed_statuses :: "string list" where
  "employed_statuses =
     [''Employed'', ''Employed - add to list'', ''Business owner'', ''Training'',
      ''Do not contact'', ''Others'', ''Left the country'', ''Passed away'', ''New graduate'']"

text \<open>
  \<^verbatim>\<open>df.groupby([group_col, "Current Status"]).size().unstack(fill_value=0)\<close>: one row per
  value of the grouping column and one column per status that occurs, both sorted; a cell
  is the number of records with that key and that status.
\<close>

definition status_columns :: "row list \<Rightarrow> string list" where
  "status_columns rs = sort (remdups (map (\<lambda>r. r ''Current Status'') rs))"

definition group_index :: "string \<Rightarrow> row list \<Rightarrow> string list" where
  "group_index group_col rs = sort (remdups (map (\<lambda>r. r group_col) rs))"

definition group_size :: "string \<Rightarrow> row list \<Rightarrow> string \<Rightarrow> string \<Rightarrow> nat" where
  "group_size group_col rs k s =
     length (filter (\<lambda>r. r group_col = k \<and> r ''Current Status'' = s) rs)"

text \<open>\<^verbatim>\<open>grouped["Total"] = grouped.sum(axis=1)\<close>: the sum of the row over the status
  columns, stored in the column \<^verbatim>\<open>Total\<close> (appended, or overwritten when a status is
  itself called \<^verbatim>\<open>Total\<close>).\<close>

definition row_sum :: "string \<Rightarrow> row list \<Rightarrow> string \<Rightarrow> nat" where
  "row_sum group_col rs k = sum_list (map (group_size group_col rs k) (status_columns rs))"

definition grouped_columns :: "row list \<Rightarrow> string list" where
  "grouped_columns rs =
     (if ''Total'' \<in> set (status_columns rs) then status_columns rs
      else status_columns rs @ [''Total''])"

definition grouped_cell :: "string \<Rightarrow> row list \<Rightarrow> string \<Rightarrow> string \<Rightarrow> nat" where
  "grouped_cell group_col rs k c =
     (if c = ''Total'' then row_sum group_col rs k else group_size group_col rs k c)"

text \<open>\<^verbatim>\<open>grouped.get(name, 0)\<close>: the column when it exists, else 0.\<close>

definition grouped_get :: "string \<Rightarrow> row list \<Rightarrow> string \<Rightarrow> string \<Rightarrow> nat" where
  "grouped_get group_col rs k c =
     (if c \<in> set (grouped_columns rs) then grouped_cell group_col rs k c else 0)"

text \<open>
  \<^verbatim>\<open>.round(2)\<close> rounds to two decimals, a tie going to the even neighbour. Percentages
  are computed here on the reals; the source computes them in binary floating point.
  With no row at all (\<open>grand_total = 0\<close>) the division gives NaN, which \<^verbatim>\<open>fillna(0)\<close> replaces.
\<close>

definition round_half_even :: "real \<Rightarrow> int" where
  "round_half_even x =
     (let f = \<lfloor>x\<rfloor>; d = x - of_int f
      in if d < 1 / 2 then f else if 1 / 2 < d then f + 1 else if even f then f else f + 1)"

definition round2 :: "real \<Rightarrow> real" where
  "round2 x = of_int (round_half_even (x * 100)) / 100"

definition percentage :: "nat \<Rightarrow> nat \<Rightarrow> real" where
  "percentage n grand_total =
     (if grand_total = 0 then 0 else round2 (real n / real grand_total * 100))"

text \<open>
  A row of \<^verbatim>\<open>final_report\<close>: the grouped columns (the status counts and \<^verbatim>\<open>Total\<close>), two
  blank columns (named \<^verbatim>\<open>""\<close> and \<^verbatim>\<open>" "\<close>, NaN in every row and 0 in the summary row), then
  the six columns of \<^verbatim>\<open>employment_stats\<close>.
\<close>

record report_row =
  row_label :: string
  counts :: "nat list"
  employed :: nat
  unemployed :: nat
  studying :: nat
  employed_percentage :: real
  unemployed_percentage :: real
  studying_percentage :: real

definition data_row :: "string \<Rightarrow> row list \<Rightarrow> nat \<Rightarrow> string \<Rightarrow> report_row" where
  "data_row group_col rs grand_total k =
     (let e = sum_list (map (grouped_get group_col rs k) employed_statuses);
          u = grouped_get group_col rs k ''Unemployed'';
          s = grouped_get group_col rs k ''Studying''
      in \<lparr>row_label = k,
          counts = map (grouped_cell group_col rs k) (grouped_columns rs),
          employed = e, unemployed = u, studying = s,
          employed_percentage = percentage e grand_total,
          unemployed_percentage = percentage u grand_total,
          studying_percentage = percentage s grand_total\<rparr>)"

definition column_sums :: "nat \<Rightarrow> nat list list \<Rightarrow> nat list" where
  "column_sums n xss = map (\<lambda>i. sum_list (map (\<lambda>xs. xs ! i) xss)) [0..<n]"

text \<open>\<^verbatim>\<open>final_report.sum(axis=0)\<close>, relabelled \<^verbatim>\<open>Overall Total\<close>: every column is summed,
  the percentage columns included.\<close>

definition summary_row :: "nat \<Rightarrow> report_row list \<Rightarrow> report_row" where
  "summary_row n body =
     \<lparr>row_label = ''Overall Total'',
      counts = column_sums n (map counts body),
      employed = sum_list (map employed body),
      unemployed = sum_list (map unemployed body),
      studying = sum_list (map studying body),
      employed_percentage = sum_list (map employed_percentage body),
      unemployed_percentage = sum_list (map unemployed_percentage body),
      studying_percentage = sum_list (map studying_percentage body)\<rparr>"

text \<open>\<^verbatim>\<open>overall_total = grouped["Total"].sum()\<close>.\<close>

definition overall_total :: "string \<Rightarrow> row list \<Rightarrow> nat" where
  "overall_total group_col rs =
     sum_list (map (\<lambda>k. grouped_cell group_col rs k ''Total'') (group_index group_col rs))"

definition report_body :: "string \<Rightarrow> row list \<Rightarrow> report_row list" where
  "report_body group_col rs =
     map (data_row group_col rs (overall_total group_col rs)) (group_index group_col rs)"

definition final_report :: "string \<Rightarrow> row list \<Rightarrow> report_row list" where
  "final_report group_col rs =
     report_body group_col rs @
     [summary_row (length (grouped_columns rs)) (report_body group_col rs)]"

text \<open>The cell of a report row in a grouped column, by the position of the column.\<close>

definition count_cell :: "string list \<Rightarrow> report_row \<Rightarrow> string \<Rightarrow> nat" where
  "count_cell cols r c = counts r ! length (takeWhile (\<lambda>x. x \<noteq> c) cols)"

record report_sheet =
  sheet_name :: string
  sheet_columns :: "string list"
  sheet_rows :: "report_row list"
  academic_years :: "string list"

definition unique_years :: "row list \<Rightarrow> string list" where
  "unique_years rs = sort (remdups (map (\<lambda>r. strip (r ''Year/Semester of Graduation'')) rs))"

definition crosstab_sheet :: "string \<Rightarrow> string \<Rightarrow> row list \<Rightarrow> string list \<Rightarrow> report_sheet" where
  "crosstab_sheet name group_col rs years_line =
     \<lparr>sheet_name = name,
      sheet_columns = grouped_columns rs @ [[], '' ''] @
        [''Employed'', ''Unemployed'', ''Studying'', ''Employed Percentage'',
         ''Unemployed Percentage'', ''Studying Percentage''],
      sheet_rows = final_report group_col rs,
      academic_years = years_line\<rparr>"

definition college_abbreviations :: "(string \<times> string) list" where
  "college_abbreviations =
     [(''College of Engineering & Advan'', ''CoE''),
      (''College of Business'', ''CoB''),
      (''College of Science & General S'', ''CoS''),
      (''College of Medicine'', ''CoM''),
      (''College of Pharmacy'', ''CoP'')]"

text \<open>\<^verbatim>\<open>college_abbreviations.get(college.strip(), college[:n])\<close>.\<close>

definition college_abbreviation :: "nat \<Rightarrow> string \<Rightarrow> string" where
  "college_abbreviation n college =
     (case map_of college_abbreviations (strip college) of
        Some a \<Rightarrow> a
      | None \<Rightarrow> take n college)"

definition degree_type :: "row \<Rightarrow> string" where
  "degree_type r = (if prefix ''G'' (strip (r ''Student ID'')) then ''Masters'' else ''Bachelors'')"

definition add_formatted_major :: "row \<Rightarrow> row" where
  "add_formatted_major r =
     r(''Degree Type'' := degree_type r,
       ''MajorFormatted'' :=
          strip (r ''Major'') @ '' - '' @ degree_type r @ '' - '' @ strip (r ''College''))"

text \<open>
  The three layouts of the detailed report: one combined sheet, one sheet per college,
  or one sheet per college and year. The sheet of a college and a year is named here
  without the three random characters that the source appends (before it cuts the name
  to 31 characters). The sheet \<^verbatim>\<open>Gender_Nationality_Breakdown\<close>, which the source appends
  afterwards inside a \<^verbatim>\<open>try\<close> whose failure is only printed, is not modelled.
\<close>

definition detailed_sheets ::
  "dataframe \<Rightarrow> row list \<Rightarrow> string list \<Rightarrow> string list \<Rightarrow> string \<Rightarrow> bool \<Rightarrow> bool
     \<Rightarrow> error + report_sheet list" where
  "detailed_sheets df filtered_df colleges years degree_option combine_all combine_years =
     (let use_formatted_majors = (combine_all \<or> degree_option = ''all'');
          group_col = (if use_formatted_majors then ''MajorFormatted'' else ''Major'');
          formatted = (if use_formatted_majors then map add_formatted_major filtered_df
                       else filtered_df);
          formatted_need = (if use_formatted_majors then [''Student ID'', ''Major'', ''College'']
                            else []);
          group_need = (if use_formatted_majors then [] else [''Major'']);
          of_college = (\<lambda>college. filter (\<lambda>r. strip (r ''College'') = college) formatted);
          of_year = (\<lambda>college_df year.
                       filter (\<lambda>r. strip (r ''Year/Semester of Graduation'') = year) college_df)
      in if combine_all then
           (case need df (formatted_need @ group_need @ [''Year/Semester of Graduation'']) of
              Some e \<Rightarrow> Inl e
            | None \<Rightarrow>
                Inr [crosstab_sheet ''Combined_Report'' group_col formatted
                       (unique_years formatted)])
         else if combine_years then
           (case need df (formatted_need @ [''College''] @ group_need @
                          [''Year/Semester of Graduation'']) of
              Some e \<Rightarrow> Inl e
            | None \<Rightarrow>
                Inr (concat (map (\<lambda>college.
                       let college_df = of_college college
                       in if List.null college_df then []
                          else [crosstab_sheet (college_abbreviation 25 college) group_col college_df
                                  (unique_years college_df)]) colleges)))
         else
           (case need df (formatted_need @ [''College'', ''Year/Semester of Graduation''] @
                          group_need) of
              Some e \<Rightarrow> Inl e
            | None \<Rightarrow>
                Inr (concat (map (\<lambda>college.
                       let college_df = of_college college
                       in if List.null college_df then []
                          else concat (map (\<lambda>year.
                                 let year_df = of_year college_df year
                                 in if List.null year_df then []
                                    else [crosstab_sheet
                                            (take 31 (college_abbreviation 15 college @ '' - '' @ year))
                                            group_col year_df [year]]) years)) colleges))))"

section \<open>QAA employment report: simple mode\<close>

definition is_digit :: "char \<Rightarrow> bool" where
  "is_digit c = (c \<in> set ''0123456789'')"

text \<open>\<^verbatim>\<open>re.search(r'(\d{4})-(\d{n})', term)\<close>: the two groups of the leftmost match.\<close>

fun search_year_range :: "nat \<Rightarrow> string \<Rightarrow> (string \<times> string) option" where
  "search_year_range n [] = None"
| "search_year_range n (c # cs) =
     (let a = take 4 (c # cs); b = take n (drop 5 (c # cs))
      in if length a = 4 \<and> list_all is_digit a \<and> take 1 (drop 4 (c # cs)) = ''-'' \<and>
            length b = n \<and> list_all is_digit b
         then Some (a, b)
         else search_year_range n cs)"

text \<open>\<^verbatim>\<open>re.search(r'(\d{4})', term)\<close>.\<close>

fun search_year :: "string \<Rightarrow> string option" where
  "search_year [] = None"
| "search_year (c # cs) =
     (let a = take 4 (c # cs)
      in if length a = 4 \<and> list_all is_digit a then Some a else search_year cs)"

text \<open>\<^verbatim>\<open>int(s)\<close> on a string of digits, and \<^verbatim>\<open>str(n)\<close> on an integer.\<close>

definition digit_value :: "char \<Rightarrow> nat" where
  "digit_value c = length (takeWhile (\<lambda>d. d \<noteq> c) ''0123456789'')"

definition int_of_digits :: "string \<Rightarrow> int" where
  "int_of_digits s = int (foldl (\<lambda>acc c. 10 * acc + digit_value c) 0 s)"

fun str_of_nat :: "nat \<Rightarrow> string" where
  "str_of_nat n =
     (if n < 10 then [''0123456789'' ! n]
      else str_of_nat (n div 10) @ [''0123456789'' ! (n mod 10)])"

definition str_of_int :: "int \<Rightarrow> string" where
  "str_of_int i = (if i < 0 then CHR ''-'' # str_of_nat (nat (- i)) else str_of_nat (nat i))"

definition extract_academic_year :: "pyval \<Rightarrow> string" where
  "extract_academic_year graduation_term =
     (case graduation_term of
        PyStr term \<Rightarrow>
          (case search_year_range 4 term of
             Some (a, b) \<Rightarrow> a @ ''-'' @ b
           | None \<Rightarrow>
               (case search_year_range 2 term of
                  Some (a, b) \<Rightarrow> a @ ''-20'' @ b
                | None \<Rightarrow>
                    (case search_year term of
                       Some a \<Rightarrow>
                         str_of_int (int_of_digits a - 1) @ ''-'' @ str_of_int (int_of_digits a)
                     | None \<Rightarrow> ''Unknown'')))
      | _ \<Rightarrow> ''Unknown'')"

text \<open>\<^verbatim>\<open>Series.unique()\<close>: the distinct values in the order of their first occurrence.\<close>

definition unique :: "string list \<Rightarrow> string list" where
  "unique xs = rev (remdups (rev xs))"

record simple_row =
  college_name :: string
  total_graduates :: nat
  gentlemen :: nat
  ladies :: nat

record simple_sheet =
  year_sheet_name :: string
  year_rows :: "simple_row list"
  year_totals :: simple_row

record all_years_row =
  summary_college :: string
  summary_total :: nat
  summary_ladies :: nat
  summary_gentlemen :: nat
  summary_saudi :: nat
  summary_non_saudi :: nat

record simple_workbook =
  year_sheets :: "simple_sheet list"
  all_years_summary :: "(all_years_row list \<times> all_years_row) option"

definition college_summary :: "row list \<Rightarrow> string \<Rightarrow> simple_row" where
  "college_summary year_df college =
     (let college_df = filter (\<lambda>r. strip (r ''_College'') = college) year_df
      in \<lparr>college_name = college,
          total_graduates = length college_df,
          gentlemen = length (filter (\<lambda>r. upper (strip (r ''Gender'')) = ''MALE'') college_df),
          ladies = length (filter (\<lambda>r. upper (strip (r ''Gender'')) = ''FEMALE'') college_df)\<rparr>)"

definition year_sheet :: "row list \<Rightarrow> string \<Rightarrow> simple_sheet" where
  "year_sheet filtered_df academic_year =
     (let year_df = filter (\<lambda>r. extract_academic_year (PyStr (r ''_Year'')) = academic_year)
                      filtered_df;
          summary = map (college_summary year_df)
                      (unique (map (\<lambda>r. strip (r ''_College'')) year_df))
      in \<lparr>year_sheet_name = take 31 (replace_str ''-'' ''_'' academic_year),
          year_rows = summary,
          year_totals = \<lparr>college_name = ''TOTAL'',
                         total_graduates = sum_list (map total_graduates summary),
                         gentlemen = sum_list (map gentlemen summary),
                         ladies = sum_list (map ladies summary)\<rparr>\<rparr>)"

definition all_years_college :: "row list \<Rightarrow> string \<Rightarrow> all_years_row" where
  "all_years_college filtered_df college =
     (let college_df = filter (\<lambda>r. strip (r ''_College'') = college) filtered_df;
          saudi_count =
            length (filter (\<lambda>r. strip (r ''Nationality'') = ''Saudi Arabia'') college_df)
      in \<lparr>summary_college = college,
          summary_total = length college_df,
          summary_ladies =
            length (filter (\<lambda>r. upper (strip (r ''Gender'')) = ''FEMALE'') college_df),
          summary_gentlemen =
            length (filter (\<lambda>r. upper (strip (r ''Gender'')) = ''MALE'') college_df),
          summary_saudi = saudi_count,
          summary_non_saudi = length college_df - saudi_count\<rparr>)"

text \<open>\<^verbatim>\<open>create_all_years_summary_tab\<close> catches its own exceptions and prints them: without
  a nationality column, or without any record, the tab is not written.\<close>

definition create_all_years_summary_tab ::
  "dataframe \<Rightarrow> row list \<Rightarrow> (all_years_row list \<times> all_years_row) option" where
  "create_all_years_summary_tab df filtered_df =
     (if ''Nationality'' \<notin> set (columns df) \<or> List.null filtered_df then None
      else (let summary = map (all_years_college filtered_df)
                            (unique (map (\<lambda>r. strip (r ''_College'')) filtered_df))
            in Some (summary,
                     \<lparr>summary_college = ''Total of Graduates'',
                      summary_total = sum_list (map summary_total summary),
                      summary_ladies = sum_list (map summary_ladies summary),
                      summary_gentlemen = sum_list (map summary_gentlemen summary),
                      summary_saudi = sum_list (map summary_saudi summary),
                      summary_non_saudi = sum_list (map summary_non_saudi summary)\<rparr>)))"

datatype qaa_workbook = Detailed "report_sheet list" | Simple simple_workbook

definition process_simple_mode_report :: "dataframe \<Rightarrow> row list \<Rightarrow> qaa_workbook response" where
  "process_simple_mode_report df filtered_df =
     (case need df [''Gender'', ''_College'', ''_Year''] of
        Some e \<Rightarrow> Error (''Error generating Simple mode report: '' @ error_message e)
      | None \<Rightarrow>
          (let academic_years =
                 sort (remdups (map (\<lambda>r. extract_academic_year (PyStr (r ''_Year''))) filtered_df))
           in Success (Simple
                \<lparr>year_sheets = map (year_sheet filtered_df)
                                  (filter (\<lambda>y. y \<noteq> ''Unknown'') academic_years),
                 all_years_summary = create_all_years_summary_tab df filtered_df\<rparr>)))"

section \<open>QAA employment report: filters and entry point\<close>

text \<open>The nationality filter of \<^verbatim>\<open>process_qaa_report\<close> and \<^verbatim>\<open>process_alumni_list\<close>: both
  options have a branch, and the column is read without a test for its presence.\<close>

definition nationality_filter :: "string option \<Rightarrow> row \<Rightarrow> bool" where
  "nationality_filter nationality_option r =
     (if option_is nationality_option ''saudi''
      then strip (r ''Nationality'') = ''Saudi Arabia''
      else if option_is nationality_option ''non-saudi''
      then strip (r ''Nationality'') \<noteq> ''Saudi Arabia''
      else True)"

definition nationality_columns :: "string option \<Rightarrow> string list" where
  "nationality_columns nationality_option =
     (if option_is nationality_option ''saudi'' \<or> option_is nationality_option ''non-saudi''
      then [''Nationality''] else [])"

definition clean_status_column :: "row \<Rightarrow> row" where
  "clean_status_column r = r(''Current Status'' := clean_status (PyStr (r ''Current Status'')))"

text \<open>The filtering of \<^verbatim>\<open>process_qaa_report\<close>: the pair \<^verbatim>\<open>(filtered_df_all, filtered_df)\<close>.
  Simple mode applies the college and term filters only.\<close>

definition qaa_filter ::
  "dataframe \<Rightarrow> string list \<Rightarrow> string list \<Rightarrow> string \<Rightarrow> string \<Rightarrow> string option \<Rightarrow> string
     \<Rightarrow> error + (row list \<times> row list)" where
  "qaa_filter df colleges years degree_option gender_option nationality_option mode_option =
     (case need df ([''Current Status'', ''_College'', ''_Year''] @
                    (if mode_option = ''simple'' then []
                     else degree_columns degree_option @ gender_columns gender_option @
                          nationality_columns nationality_option)) of
        Some e \<Rightarrow> Inl e
      | None \<Rightarrow>
          (let base = filter (\<lambda>r. r ''_Year'' \<in> set years)
                        (filter (\<lambda>r. r ''_College'' \<in> set colleges)
                           (map clean_status_column (rows df)))
           in if mode_option = ''simple'' then Inr (base, base)
              else (let filtered_df_all = filter (degree_filter degree_option) base
                    in Inr (filtered_df_all,
                            filter (nationality_filter nationality_option)
                              (filter (gender_filter gender_option) filtered_df_all)))))"

definition process_qaa_report ::
  "sessions \<Rightarrow> string \<Rightarrow> string list \<Rightarrow> string list \<Rightarrow> string \<Rightarrow> bool \<Rightarrow> bool \<Rightarrow> string
     \<Rightarrow> string option \<Rightarrow> string \<Rightarrow> qaa_workbook response" where
  "process_qaa_report session_data session_id colleges years degree_option combine_all
       combine_years gender_option nationality_option mode_option =
     (case session_data session_id of
        None \<Rightarrow> Error ''No data found for your session. Please upload an Excel file first.''
      | Some entry \<Rightarrow>
          (case qaa_filter (data entry) colleges years degree_option gender_option
                  nationality_option mode_option of
             Inl e \<Rightarrow> Error (''Error generating QAA report: '' @ error_message e)
           | Inr (filtered_df_all, filtered_df) \<Rightarrow>
               if List.null filtered_df
               then Error ''No matching data found for the given filters.''
               else if mode_option = ''simple''
               then process_simple_mode_report (data entry) filtered_df_all
               else (case detailed_sheets (data entry) filtered_df colleges years degree_option
                            combine_all combine_years of
                       Inl e \<Rightarrow> Error (''Error generating QAA report: '' @ error_message e)
                     | Inr sheets \<Rightarrow> Success (Detailed sheets))))"

section \<open>Alumni contact list\<close>

definition columns_to_output :: "string list" where
  "columns_to_output =
     [''Student Name'', ''Gender'', ''College Degree'', ''Major'', ''Minor'', ''Concentration'',
      ''Personal Email'', ''Phone Number'', ''Nationality'', ''GPA'',
      ''Year/Semester of Graduation'']"

record alumni_sheet =
  list_sheet_name :: string
  list_rows :: "string list list"

text \<open>The filtering of \<^verbatim>\<open>process_alumni_list\<close>, on the frame whose statuses were cleaned.\<close>

definition alumni_filter ::
  "dataframe \<Rightarrow> string list \<Rightarrow> string list \<Rightarrow> string list \<Rightarrow> string \<Rightarrow> string option \<Rightarrow> string
     \<Rightarrow> error + row list" where
  "alumni_filter df colleges years allowed_statuses gender_option nationality_option
       degree_option =
     (case need df ([''Current Status'', ''College'', ''Year/Semester of Graduation''] @
                    degree_columns degree_option @ gender_columns gender_option @
                    nationality_columns nationality_option) of
        Some e \<Rightarrow> Inl e
      | None \<Rightarrow>
          Inr (filter (\<lambda>r. r ''Current Status'' \<in>
                              set (map (\<lambda>status. clean_status (PyStr status)) allowed_statuses))
                 (filter (nationality_filter nationality_option)
                    (filter (gender_filter gender_option)
                       (filter (degree_filter degree_option)
                          (filter (\<lambda>r. strip (r ''Year/Semester of Graduation'') \<in> set years)
                             (filter (\<lambda>r. strip (r ''College'') \<in> set colleges)
                                (map clean_status_column (rows df)))))))))"

text \<open>An output cell: the column \<^verbatim>\<open>College Degree\<close> is built from the college and the
  degree (\<^verbatim>\<open>safe_get_column\<close> gives the empty string without a degree column); an output
  column that the frame lacks is created empty.\<close>

definition output_cell :: "dataframe \<Rightarrow> row \<Rightarrow> string \<Rightarrow> string" where
  "output_cell df r c =
     (if c = ''College Degree''
      then strip (r ''College'') @ '' '' @
           strip (if ''Degree'' \<in> set (columns df) then r ''Degree'' else [])
      else if c \<in> set (columns df) then r c else [])"

text \<open>\<^verbatim>\<open>process_alumni_list\<close> works on the cached frame itself, not on a copy: the cleaned
  statuses stay in the cache, also when the call fails later.\<close>

definition process_alumni_list ::
  "sessions \<Rightarrow> string \<Rightarrow> string list \<Rightarrow> string list \<Rightarrow> string list \<Rightarrow> string \<Rightarrow> string option
     \<Rightarrow> string \<Rightarrow> alumni_sheet list response \<times> sessions" where
  "process_alumni_list session_data session_id colleges years allowed_statuses gender_option
       nationality_option degree_option =
     (case session_data session_id of
        None \<Rightarrow>
          (Error ''No data found for your session. Please upload an Excel file first.'',
           session_data)
      | Some entry \<Rightarrow>
          (let df = data entry;
               session_data' =
                 (if ''Current Status'' \<in> set (columns df)
                  then session_data(session_id \<mapsto>
                         entry\<lparr>data := df\<lparr>rows := map clean_status_column (rows df)\<rparr>\<rparr>)
                  else session_data)
           in case alumni_filter df colleges years allowed_statuses gender_option
                     nationality_option degree_option of
                Inl e \<Rightarrow>
                  (Error (''Error generating alumni list: '' @ error_message e), session_data')
              | Inr filtered_df \<Rightarrow>
                  if List.null filtered_df
                  then (Error ''No matching data found for the given filters.'', session_data')
                  else (Success (concat (map (\<lambda>college.
                            let college_df = filter (\<lambda>r. strip (r ''College'') = college)
                                               filtered_df
                            in if List.null college_df then []
                               else [\<lparr>list_sheet_name = college_abbreviation 25 college,
                                       list_rows = map (\<lambda>r. map (output_cell df r)
                                                               columns_to_output) college_df\<rparr>])
                            colleges)),
                        session_data')))"

section \<open>Banner roster diff\<close>

definition field_mapping :: "(string \<times> string) list" where
  "field_mapping =
     [(''Graduation Term'', ''Year/Semester of Graduation''),
      (''Student ID'', ''Student ID''),
      (''Student Name'', ''Student Name''),
      (''College'', ''College''),
      (''Degree'', ''Degree''),
      (''Major'', ''Major''),
      (''Minor'', ''Minor''),
      (''Concentration'', ''Concentration''),
      (''Nationality'', ''Nationality''),
      (''SSN'', ''SSN''),
      (''Gender'', ''Gender''),
      (''Alfaisal Email'', ''Alfaisal Email''),
      (''Personal Email'', ''Personal Email''),
      (''Phone Number'', ''Phone Number''),
      (''Joined AU'', ''Joining date''),
      (''CGPA'', ''GPA'')]"

text \<open>The fields that every new record gets after the mapping; \<open>current_date\<close> is the
  day of the call, \<^verbatim>\<open>datetime.now().strftime("%Y-%m-%d")\<close>.\<close>

definition default_fields :: "string \<Rightarrow> (string \<times> string) list" where
  "default_fields current_date =
     [(''Current Status'', ''New graduate''),
      (''Current Workplace'', []),
      (''Current Position'', []),
      (''Work Industry'', []),
      (''Workplace Country'', []),
      (''Workplace City'', []),
      (''Work Email'', []),
      (''Work Phone'', []),
      (''Social Media and Events'', []),
      (''Comments'', ''Added from Banner on '' @ current_date)]"

text \<open>
  The record built for one Banner row: every Alumni column starts empty, the mapped
  fields are copied when the Banner frame has the field and the Alumni frame the target,
  the defaults are written last, and the record is laid out on the Alumni columns.
\<close>

definition new_record :: "string list \<Rightarrow> string list \<Rightarrow> string \<Rightarrow> row \<Rightarrow> row" where
  "new_record banner_columns alumni_columns current_date r =
     (let mapped = foldl (\<lambda>acc (banner_field, alumni_field).
                            if banner_field \<in> set banner_columns \<and>
                               alumni_field \<in> set alumni_columns
                            then acc(alumni_field := r banner_field)
                            else acc)
                     (\<lambda>col. []) field_mapping;
          defaulted = foldl (\<lambda>acc (field, v). acc(field := v)) mapped
                        (default_fields current_date)
      in (\<lambda>col. if col \<in> set alumni_columns then defaulted col else []))"

text \<open>\<^verbatim>\<open>df["Student ID"] = df["Student ID"].astype(str).str.strip()\<close>, done on the cached
  frames themselves.\<close>

definition strip_student_ids :: "dataframe \<Rightarrow> dataframe" where
  "strip_student_ids df =
     df\<lparr>rows := map (\<lambda>r. r(''Student ID'' := strip (r ''Student ID''))) (rows df)\<rparr>"

definition student_ids :: "dataframe \<Rightarrow> string list" where
  "student_ids df = map (\<lambda>r. r ''Student ID'') (rows df)"

text \<open>\<^verbatim>\<open>new_students_df\<close>: the Banner rows whose identifier is in the set difference
  \<^verbatim>\<open>banner_student_ids - alumni_student_ids\<close>.\<close>

definition new_students_df :: "dataframe \<Rightarrow> dataframe \<Rightarrow> row list" where
  "new_students_df banner_df alumni_df =
     filter (\<lambda>r. r ''Student ID'' \<in> set (student_ids banner_df) - set (student_ids alumni_df))
       (rows banner_df)"

record banner_result =
  message :: "string option"
  combined_df :: "dataframe option"
  new_records :: nat
  banner_records :: nat
  alumni_records :: nat
  combined_records :: "nat option"
  new_students :: "(string \<times> string) list"

text \<open>
  \<^verbatim>\<open>process_banner_integration\<close>. The copy of the uploaded workbook and the writing of
  the updated one are not modelled; \<open>combined_df\<close> is the table that is written.
\<close>

definition process_banner_integration ::
  "sessions \<Rightarrow> string \<Rightarrow> string \<Rightarrow> string \<Rightarrow> banner_result response \<times> sessions" where
  "process_banner_integration session_data banner_session_id alumni_session_id current_date =
     (case session_data banner_session_id of
        None \<Rightarrow>
          (Error (''No Banner data found for your session. '' @
                  ''Please upload the Banner Excel file first.''), session_data)
      | Some banner_entry \<Rightarrow>
          (case session_data alumni_session_id of
             None \<Rightarrow>
               (Error (''No Alumni List data found for your session. '' @
                       ''Please upload the Alumni List Excel file first.''), session_data)
           | Some alumni_entry \<Rightarrow>
               if ''Student ID'' \<notin> set (columns (data banner_entry))
               then (Error (''Student ID column not found in Banner data. '' @
                            ''Please check your file format.''), session_data)
               else if ''Student ID'' \<notin> set (columns (data alumni_entry))
               then (Error (''Student ID column not found in Alumni List data. '' @
                            ''Please check your file format.''), session_data)
               else
                 (let banner_df = strip_student_ids (data banner_entry);
                      alumni_df = strip_student_ids (data alumni_entry);
                      session_data' =
                        session_data(banner_session_id \<mapsto> banner_entry\<lparr>data := banner_df\<rparr>,
                                     alumni_session_id \<mapsto> alumni_entry\<lparr>data := alumni_df\<rparr>);
                      new_students = new_students_df banner_df alumni_df
                  in if List.null new_students
                     then (Success
                             \<lparr>message = Some (''No new graduates found in Banner that are '' @
                                              ''not already in the Alumni List.''),
                              combined_df = None,
                              new_records = 0,
                              banner_records = length (rows banner_df),
                              alumni_records = length (rows alumni_df),
                              combined_records = None,
                              new_students = []\<rparr>, session_data')
                     else
                       (let new_alumni_records =
                              map (new_record (columns banner_df) (columns alumni_df)
                                     current_date) new_students;
                            combined = rows alumni_df @ new_alumni_records
                        in if ''Student Name'' \<notin> set (columns banner_df)
                           then (Error (''Error processing Banner integration: '' @
                                        [CHR 0x22, CHR ''['', CHR 0x27] @ ''Student Name'' @
                                        [CHR 0x27] @ ''] not in index'' @ [CHR 0x22]),
                                 session_data')
                           else (Success
                                   \<lparr>message = None,
                                    combined_df = Some (alumni_df\<lparr>rows := combined\<rparr>),
                                    new_records = length new_alumni_records,
                                    banner_records = length (rows banner_df),
                                    alumni_records = length (rows alumni_df),
                                    combined_records = Some (length combined),
                                    new_students =
                                      map (\<lambda>r. (r ''Student ID'', r ''Student Name''))
                                        new_students\<rparr>, session_data')))))"

section \<open>Example datasets\<close>

text \<open>Small datasets on which the theorems below are instantiated: three alumni of one
  college and one term, the same table without its nationality column, and a Banner
  roster in which one identifier occurs twice.\<close>

definition row_of :: "(string \<times> string) list \<Rightarrow> row" where
  "row_of cells col = (case map_of cells col of Some v \<Rightarrow> v | None \<Rightarrow> [])"

definition example_record ::
  "string \<Rightarrow> string \<Rightarrow> string \<Rightarrow> string \<Rightarrow> string \<Rightarrow> string \<Rightarrow> string \<Rightarrow> row" where
  "example_record student_id gender nationality status major workplace job =
     row_of [(''College'', ''College of Business''), (''_College'', ''College of Business''),
             (''Year/Semester of Graduation'', ''2014-2015 FALL''),
             (''_Year'', ''2014-2015 FALL''),
             (''Student ID'', student_id), (''Gender'', gender),
             (''Nationality'', nationality), (''Current Status'', status),
             (''_CurrentStatus'', status), (''Major'', major),
             (''Current Workplace'', workplace), (''Current Position'', job)]"

definition example_rows :: "row list" where
  "example_rows =
     [example_record ''1001'' ''Male'' ''Saudi Arabia'' ''Employed'' ''Finance'' ''snb'' ''CEO'',
      example_record ''1002'' ''Female'' ''Egypt'' ''Unemployed'' ''Finance'' ''N/A'' [],
      example_record ''G1003'' ''Female'' ''Saudi Arabia'' ''Studying'' ''Marketing'' [] []]"

definition example_alumni :: dataframe where
  "example_alumni =
     \<lparr>columns = [''College'', ''Year/Semester of Graduation'', ''Current Status'',
                 ''Student ID'', ''Gender'', ''Major'', ''Current Workplace'',
                 ''Current Position'', ''Nationality'', ''_College'', ''_Year'',
                 ''_CurrentStatus''],
      rows = example_rows\<rparr>"

definition example_without_nationality :: dataframe where
  "example_without_nationality =
     \<lparr>columns = [''College'', ''Year/Semester of Graduation'', ''Current Status'',
                 ''Student ID'', ''Gender'', ''Major'', ''Current Workplace'',
                 ''Current Position'', ''_College'', ''_Year'', ''_CurrentStatus''],
      rows = example_rows\<rparr>"

definition example_banner :: dataframe where
  "example_banner =
     \<lparr>columns = [''Student ID'', ''Student Name'', ''College'', ''Graduation Term'', ''Major'',
                 ''Gender'', ''_College'', ''_Year''],
      rows = [row_of [(''Student ID'', ''2001''), (''Student Name'', ''First entry'')],
              row_of [(''Student ID'', ''2001''), (''Student Name'', ''Second entry'')],
              row_of [(''Student ID'', ''1002''), (''Student Name'', ''Known alumna'')]]\<rparr>"

definition example_sessions :: sessions where
  "example_sessions =
     [''alumni'' \<mapsto> \<lparr>data = example_alumni, file_name = ''alumni.xlsx''\<rparr>,
      ''plain'' \<mapsto> \<lparr>data = example_without_nationality, file_name = ''plain.xlsx''\<rparr>,
      ''banner'' \<mapsto> \<lparr>data = example_banner, file_name = ''banner.xlsx''\<rparr>]"

text \<open>A Banner roster without the repeated row, and the session store that holds it.\<close>

definition example_roster_entry :: session_entry where
  "example_roster_entry =
     \<lparr>data = example_banner\<lparr>rows := tl (rows example_banner)\<rparr>, file_name = ''roster.xlsx''\<rparr>"

definition example_roster_sessions :: sessions where
  "example_roster_sessions = example_sessions(''roster'' \<mapsto> example_roster_entry)"

section \<open>Properties of the normalizers\<close>
























lemma sentinels_stable:
  "list_all stable_name
     (''EMPTY (NULL)'' # ''EMPTY (INVALID TYPE)'' #
      map (\<lambda>(category, patterns). ''EMPTY ('' @ category @ '')'') empty_patterns)"
  by code_simp

lemma strip_blank: "strip s = [] \<Longrightarrow> upper (strip s) = []"
  by (simp add: upper_def)

text \<open>
  Claim C7 (amended). A missing input (\<^verbatim>\<open>None\<close> or NaN) gives \<^verbatim>\<open>EMPTY (NULL)\<close>, an
  input that is no string gives \<^verbatim>\<open>EMPTY (INVALID TYPE)\<close>, and a string that is empty
  after trimming gives \<^verbatim>\<open>EMPTY (COMPLETELY EMPTY)\<close>.
\<close>

theorem normalize_company_name_missing_cases:
  "normalize_company_name PyNone = ''EMPTY (NULL)'' \<and>
   normalize_company_name PyNaN = ''EMPTY (NULL)'' \<and>
   normalize_company_name (PyNum n) = ''EMPTY (INVALID TYPE)'' \<and>
   (strip s = [] \<longrightarrow> normalize_company_name (PyStr s) = ''EMPTY (COMPLETELY EMPTY)'')"
  by (simp add: normalize_company_name_def upper_def empty_patterns_def)

theorem normalize_company_name_missing_cases_witness:
  "strip ''   '' = [] \<and> normalize_company_name (PyStr ''   '') = ''EMPTY (COMPLETELY EMPTY)''"
proof -
  have b: "strip ''   '' = []" by code_simp
  show ?thesis using normalize_company_name_missing_cases[of 0 "''   ''"] b by simp
qed

text \<open>
  Claim C7 as stated fails: neither a number nor a blank string gives
  \<^verbatim>\<open>EMPTY (NULL)\<close>.
\<close>

theorem normalize_company_name_not_always_null:
  "normalize_company_name (PyNum 7) \<noteq> ''EMPTY (NULL)'' \<and>
   normalize_company_name (PyStr ''   '') \<noteq> ''EMPTY (NULL)''"
  by code_simp


subsection \<open>Job titles\<close>

text \<open>
  Claim C5. The context test guards a keyword only when it is in the list
  \<^verbatim>\<open>['HEAD', 'CHIEF', 'OWNER']\<close> and shorter than five characters, which leaves
  \<^verbatim>\<open>HEAD\<close> alone: the title \<^verbatim>\<open>Chief Engineer\<close> holds none of the words
  \<^verbatim>\<open>OF\<close>, \<^verbatim>\<open>DEPARTMENT\<close>, \<^verbatim>\<open>DIVISION\<close>, \<^verbatim>\<open>TEAM\<close> and is still classified
  as \<^verbatim>\<open>CHIEF\<close>.
\<close>

theorem is_high_position_chief_without_context:
  "map_of high_position_mapping (upper (strip ''Chief Engineer'')) = None \<and>
   \<not> list_ex (\<lambda>context. str_contains context (upper (strip ''Chief Engineer''))) leadership_context \<and>
   is_high_position (PyStr ''Chief Engineer'') = Some ''CHIEF''"
  by code_simp

section \<open>Properties of the cross-tab\<close>

lemma length_filter_disjoint:
  assumes "\<And>r. \<not> (A r \<and> B r)"
  shows "length (filter (\<lambda>r. A r \<or> B r) rs) = length (filter A rs) + length (filter B rs)"
  using assms by (induction rs) auto

lemma sum_group_sizes:
  assumes "distinct ks"
  shows "sum_list (map (\<lambda>k. length (filter (\<lambda>r. f r = k \<and> P r) rs)) ks) =
         length (filter (\<lambda>r. f r \<in> set ks \<and> P r) rs)"
  using assms
proof (induction ks)
  case Nil
  then show ?case by simp
next
  case (Cons k ks)
  have "length (filter (\<lambda>r. (f r = k \<and> P r) \<or> (f r \<in> set ks \<and> P r)) rs) =
        length (filter (\<lambda>r. f r = k \<and> P r) rs) + length (filter (\<lambda>r. f r \<in> set ks \<and> P r) rs)"
    using Cons.prems by (intro length_filter_disjoint) auto
  moreover have "(\<lambda>r. f r \<in> set (k # ks) \<and> P r) = (\<lambda>r. (f r = k \<and> P r) \<or> (f r \<in> set ks \<and> P r))"
    by auto
  ultimately show ?case using Cons by simp
qed

lemma set_status_columns: "set (status_columns rs) = (\<lambda>r. r ''Current Status'') ` set rs"
  by (simp add: status_columns_def)

lemma distinct_status_columns: "distinct (status_columns rs)"
  by (simp add: status_columns_def)

lemma set_group_index: "set (group_index g rs) = (\<lambda>r. r g) ` set rs"
  by (simp add: group_index_def)

lemma distinct_group_index: "distinct (group_index g rs)"
  by (simp add: group_index_def)

lemma filter_cong_set: "(\<And>r. r \<in> set rs \<Longrightarrow> P r = Q r) \<Longrightarrow> filter P rs = filter Q rs"
  by (rule filter_cong) auto

lemma group_size_fun:
  "group_size g rs k = (\<lambda>s. length (filter (\<lambda>r. r ''Current Status'' = s \<and> r g = k) rs))"
  by (rule ext) (simp add: group_size_def conj_commute)

lemma row_sum_eq: "row_sum g rs k = length (filter (\<lambda>r. r g = k) rs)"
proof -
  have "row_sum g rs k =
        sum_list (map (\<lambda>s. length (filter (\<lambda>r. r ''Current Status'' = s \<and> r g = k) rs)) (status_columns rs))"
    by (simp only: row_sum_def group_size_fun)
  also have "\<dots> = length (filter (\<lambda>r. r ''Current Status'' \<in> set (status_columns rs) \<and> r g = k) rs)"
    by (rule sum_group_sizes) (rule distinct_status_columns)
  also have "\<dots> = length (filter (\<lambda>r. r g = k) rs)"
    by (rule arg_cong[where f = length], rule filter_cong_set) (simp add: set_status_columns)
  finally show ?thesis .
qed

lemma sum_over_index:
  "sum_list (map (\<lambda>k. length (filter (\<lambda>r. r g = k \<and> P r) rs)) (group_index g rs)) =
   length (filter P rs)"
proof -
  have "sum_list (map (\<lambda>k. length (filter (\<lambda>r. r g = k \<and> P r) rs)) (group_index g rs)) =
        length (filter (\<lambda>r. r g \<in> set (group_index g rs) \<and> P r) rs)"
    by (rule sum_group_sizes) (rule distinct_group_index)
  also have "\<dots> = length (filter P rs)"
    by (rule arg_cong[where f = length], rule filter_cong_set) (simp add: set_group_index)
  finally show ?thesis .
qed

lemma overall_total_eq: "overall_total g rs = length rs"
  using sum_over_index[of g "\<lambda>r. True" rs]
  by (simp add: overall_total_def grouped_cell_def row_sum_eq)

lemma group_size_absent:
  "s \<notin> set (status_columns rs) \<Longrightarrow> group_size g rs k s = 0"
  by (auto simp: group_size_def set_status_columns filter_empty_conv)

lemma grouped_get_eq:
  "s \<noteq> ''Total'' \<Longrightarrow> grouped_get g rs k s = group_size g rs k s"
  by (auto simp: grouped_get_def grouped_cell_def grouped_columns_def group_size_absent)

lemma employed_not_total: "s \<in> set employed_statuses \<Longrightarrow> s \<noteq> ''Total''"
  by (auto simp: employed_statuses_def)

lemma employed_sum_eq:
  "sum_list (map (grouped_get g rs k) employed_statuses) =
   length (filter (\<lambda>r. r g = k \<and> r ''Current Status'' \<in> set employed_statuses) rs)"
proof -
  have "map (grouped_get g rs k) employed_statuses = map (group_size g rs k) employed_statuses"
    by (rule map_cong) (auto simp: grouped_get_eq employed_not_total)
  moreover have "sum_list (map (\<lambda>s. length (filter (\<lambda>r. r ''Current Status'' = s \<and> r g = k) rs)) employed_statuses) =
        length (filter (\<lambda>r. r ''Current Status'' \<in> set employed_statuses \<and> r g = k) rs)"
    by (rule sum_group_sizes) (simp add: employed_statuses_def)
  ultimately show ?thesis
    by (simp only: group_size_fun) (simp add: conj_commute)
qed


lemma total_in_grouped_columns: "''Total'' \<in> set (grouped_columns rs)"
  by (simp add: grouped_columns_def)

lemma first_position:
  "c \<in> set cols \<Longrightarrow>
   length (takeWhile (\<lambda>x. x \<noteq> c) cols) < length cols \<and>
   cols ! length (takeWhile (\<lambda>x. x \<noteq> c) cols) = c"
  by (induction cols) auto

lemmas total_index = first_position[OF total_in_grouped_columns]

lemma count_cell_data_row:
  "count_cell (grouped_columns rs) (data_row g rs n k) ''Total'' = row_sum g rs k"
  using total_index[of rs]
  by (simp add: count_cell_def data_row_def Let_def grouped_cell_def)

lemma length_filter_conj_le: "length (filter (\<lambda>r. A r \<and> B r) rs) \<le> length (filter B rs)"
  by (induction rs) auto

lemma buckets_le_row_sum:
  "sum_list (map (grouped_get g rs k) employed_statuses) + grouped_get g rs k ''Unemployed'' +
     grouped_get g rs k ''Studying'' \<le> row_sum g rs k"
proof -
  let ?all = "employed_statuses @ [''Unemployed'', ''Studying'']"
  have d: "distinct ?all" by (simp add: employed_statuses_def)
  have "sum_list (map (grouped_get g rs k) employed_statuses) + grouped_get g rs k ''Unemployed'' +
          grouped_get g rs k ''Studying'' =
        sum_list (map (group_size g rs k) ?all)"
    using employed_sum_eq[of g rs k] sum_group_sizes[of employed_statuses "\<lambda>r. r ''Current Status''" "\<lambda>r. r g = k" rs]
    by (simp add: grouped_get_eq group_size_fun employed_statuses_def conj_commute)
  also have "\<dots> = length (filter (\<lambda>r. r ''Current Status'' \<in> set ?all \<and> r g = k) rs)"
    unfolding group_size_fun by (rule sum_group_sizes[OF d])
  also have "\<dots> \<le> length (filter (\<lambda>r. r g = k) rs)"
    by (rule length_filter_conj_le)
  finally show ?thesis by (simp add: row_sum_eq)
qed

text \<open>
  Claim C3. In every data row of the cross-tab, \<open>Employed\<close> is the sum of the counts
  of the nine employed-equivalent statuses, \<open>Unemployed\<close> and \<open>Studying\<close> are the counts
  of these two statuses, \<open>Total\<close> is the sum of the row over all status columns, and
  \<open>Employed + Unemployed + Studying \<le> Total\<close>.
\<close>

theorem crosstab_row_within_total:
  assumes "r \<in> set (report_body g rs)"
  shows "employed r = sum_list (map (group_size g rs (row_label r)) employed_statuses) \<and>
         unemployed r = group_size g rs (row_label r) ''Unemployed'' \<and>
         studying r = group_size g rs (row_label r) ''Studying'' \<and>
         count_cell (grouped_columns rs) r ''Total'' =
           sum_list (map (group_size g rs (row_label r)) (status_columns rs)) \<and>
         employed r + unemployed r + studying r \<le> count_cell (grouped_columns rs) r ''Total''"
proof -
  from assms obtain k where r: "r = data_row g rs (overall_total g rs) k"
    by (auto simp: report_body_def)
  have k: "row_label r = k" by (simp add: r data_row_def Let_def)
  have e: "employed r = sum_list (map (grouped_get g rs k) employed_statuses)"
    and u: "unemployed r = grouped_get g rs k ''Unemployed''"
    and s: "studying r = grouped_get g rs k ''Studying''"
    by (simp_all add: r data_row_def Let_def)
  have e': "sum_list (map (grouped_get g rs k) employed_statuses) =
            sum_list (map (group_size g rs k) employed_statuses)"
    by (rule arg_cong[where f = sum_list], rule map_cong) (auto simp: grouped_get_eq employed_not_total)
  have t: "count_cell (grouped_columns rs) r ''Total'' = row_sum g rs k"
    unfolding r by (rule count_cell_data_row)
  show ?thesis
    using buckets_le_row_sum[of g rs k]
    by (simp add: k e u s e' t grouped_get_eq row_sum_def)
qed

lemma column_sums_nth:
  "i < n \<Longrightarrow> column_sums n xss ! i = sum_list (map (\<lambda>xs. xs ! i) xss)"
  by (simp add: column_sums_def)


lemma sum_list_map_map: "sum_list (map f (map h xs)) = sum_list (map (\<lambda>x. f (h x)) xs)"
  by (simp add: comp_def)

lemma summary_total: 
  "count_cell (grouped_columns rs) (summary_row (length (grouped_columns rs)) (report_body g rs)) ''Total'' = length rs"
proof -
  let ?i = "length (takeWhile (\<lambda>x. x \<noteq> ''Total'') (grouped_columns rs))"
  have "count_cell (grouped_columns rs) (summary_row (length (grouped_columns rs)) (report_body g rs)) ''Total'' =
        sum_list (map (\<lambda>r. counts r ! ?i) (report_body g rs))"
    using total_index[of rs] by (simp add: count_cell_def summary_row_def column_sums_nth comp_def)
  also have "\<dots> = sum_list (map (\<lambda>k. count_cell (grouped_columns rs) (data_row g rs (overall_total g rs) k) ''Total'') (group_index g rs))"
    by (simp add: report_body_def comp_def count_cell_def)
  also have "\<dots> = overall_total g rs"
    by (simp add: count_cell_data_row overall_total_def grouped_cell_def)
  finally show ?thesis by (simp add: overall_total_eq)
qed












lemma example_final_report:
  "final_report ''Major'' example_rows =
     [\<lparr>row_label = ''Finance'', counts = [1, 0, 1, 2], employed = 1, unemployed = 1,
        studying = 0, employed_percentage = 3333 / 100, unemployed_percentage = 3333 / 100,
        studying_percentage = 0\<rparr>,
      \<lparr>row_label = ''Marketing'', counts = [0, 1, 0, 1], employed = 0, unemployed = 0,
        studying = 1, employed_percentage = 0, unemployed_percentage = 0,
        studying_percentage = 3333 / 100\<rparr>,
      \<lparr>row_label = ''Overall Total'', counts = [1, 1, 1, 3], employed = 1, unemployed = 1,
        studying = 1, employed_percentage = 3333 / 100, unemployed_percentage = 3333 / 100,
        studying_percentage = 3333 / 100\<rparr>]"
  by code_simp


text \<open>
  The first data row of the example (major \<^verbatim>\<open>Finance\<close>): one employed and one
  unemployed record, a total of two.
\<close>

theorem crosstab_row_within_total_witness:
  "hd (report_body ''Major'' example_rows) \<in> set (report_body ''Major'' example_rows) \<and>
   employed (hd (report_body ''Major'' example_rows)) = 1 \<and>
   unemployed (hd (report_body ''Major'' example_rows)) = 1 \<and>
   studying (hd (report_body ''Major'' example_rows)) = 0 \<and>
   count_cell (grouped_columns example_rows) (hd (report_body ''Major'' example_rows)) ''Total'' = 2"
proof -
  have b: "report_body ''Major'' example_rows = butlast (final_report ''Major'' example_rows)"
    by (simp add: final_report_def)
  have c: "grouped_columns example_rows = [''Employed'', ''Studying'', ''Unemployed'', ''Total'']"
    by code_simp
  have m: "hd (report_body ''Major'' example_rows) \<in> set (report_body ''Major'' example_rows)"
    unfolding b example_final_report by simp
  show ?thesis
    using crosstab_row_within_total[OF m] m
    unfolding b example_final_report c
    by (simp add: count_cell_def)
qed

section \<open>Properties of the reports and their filters\<close>

lemma need_present: "set cs \<subseteq> set (columns df) \<Longrightarrow> need df cs = None"
  by (induction cs) auto

lemma need_missing: "need df cs = None \<Longrightarrow> set cs \<subseteq> set (columns df)"
  by (induction cs) (auto split: if_splits)

lemma workplace_columns_needed:
  "set ([''_College'', ''_Year''] @ degree_columns degree_option @ gender_columns gender_option @
        [''Current Workplace'', ''Current Position''])
   \<subseteq> set [''_College'', ''_Year'', ''Student ID'', ''Gender'', ''Current Workplace'',
            ''Current Position'']"
  by (auto simp: degree_columns_def gender_columns_def)

lemma length_filter_split:
  "length (filter (\<lambda>x. \<not> Q x) (filter P xs)) + length (filter Q (filter P xs)) =
   length (filter P xs)"
  using sum_length_filter_compl[of Q "filter P xs"]
  by (simp del: filter_filter add: add.commute)

text \<open>
  Claim C10. Whenever the workplace statistics are produced, \<open>valid_entries + empty_entries =
  total_alumni\<close>: the filtered records are split by whether the normalized workplace
  starts with \<^verbatim>\<open>EMPTY\<close>, and the sizes of the two parts are reported. They are produced
  for every dataset that has the columns the function reads, whatever the filter selection.
\<close>

theorem workplace_entries_partition:
  "(get_workplace_statistics df colleges years degree_option gender_option nationality_option =
      Inr stats \<longrightarrow>
    valid_entries stats + empty_entries stats = total_alumni stats) \<and>
   (set [''_College'', ''_Year'', ''Student ID'', ''Gender'', ''Current Workplace'',
         ''Current Position''] \<subseteq> set (columns df) \<longrightarrow>
    (\<exists>result. get_workplace_statistics df colleges years degree_option gender_option
                 nationality_option = Inr result))"
proof (intro conjI impI)
  assume "get_workplace_statistics df colleges years degree_option gender_option
            nationality_option = Inr stats"
  then have "valid_entries stats =
                length (filter (\<lambda>r. \<not> prefix ''EMPTY''
                                        (normalize_company_name (PyStr (r ''Current Workplace''))))
                          (filter (workplace_mask df colleges years degree_option gender_option
                                     nationality_option) (rows df)))"
    and "empty_entries stats =
                length (filter (\<lambda>r. prefix ''EMPTY''
                                        (normalize_company_name (PyStr (r ''Current Workplace''))))
                          (filter (workplace_mask df colleges years degree_option gender_option
                                     nationality_option) (rows df)))"
    and "total_alumni stats =
                length (filter (workplace_mask df colleges years degree_option gender_option
                                  nationality_option) (rows df))"
    by (auto simp: get_workplace_statistics_def Let_def simp del: filter_filter
             split: option.splits)
  then show "valid_entries stats + empty_entries stats = total_alumni stats"
    by (simp only: length_filter_split)
next
  assume "set [''_College'', ''_Year'', ''Student ID'', ''Gender'', ''Current Workplace'',
               ''Current Position''] \<subseteq> set (columns df)"
  with workplace_columns_needed[of degree_option gender_option]
  have "need df ([''_College'', ''_Year''] @ degree_columns degree_option @
                 gender_columns gender_option @ [''Current Workplace'', ''Current Position''])
        = None"
    by (intro need_present) blast
  then show "\<exists>result. get_workplace_statistics df colleges years degree_option gender_option
                nationality_option = Inr result"
    by (simp add: get_workplace_statistics_def Let_def)
qed

lemma example_workplace_counts:
  "map_sum id total_alumni (get_workplace_statistics example_alumni [''College of Business'']
       [''2014-2015 FALL''] ''all'' ''all'' None) = Inr 3"
  "map_sum id valid_entries (get_workplace_statistics example_alumni [''College of Business'']
       [''2014-2015 FALL''] ''all'' ''all'' None) = Inr 1"
  "map_sum id empty_entries (get_workplace_statistics example_alumni [''College of Business'']
       [''2014-2015 FALL''] ''all'' ''all'' None) = Inr 2"
  by code_simp+

text \<open>
  On the example the six columns are present and the statistics are three alumni, one
  valid workplace and two empty ones.
\<close>

theorem workplace_entries_partition_witness:
  "set [''_College'', ''_Year'', ''Student ID'', ''Gender'', ''Current Workplace'',
        ''Current Position''] \<subseteq> set (columns example_alumni) \<and>
   (\<exists>stats. get_workplace_statistics example_alumni [''College of Business'']
              [''2014-2015 FALL''] ''all'' ''all'' None = Inr stats \<and>
            total_alumni stats = 3 \<and> valid_entries stats = 1 \<and> empty_entries stats = 2 \<and>
            valid_entries stats + empty_entries stats = total_alumni stats)"
proof -
  have c: "set [''_College'', ''_Year'', ''Student ID'', ''Gender'', ''Current Workplace'',
                ''Current Position''] \<subseteq> set (columns example_alumni)"
    by (simp add: example_alumni_def)
  note w = workplace_entries_partition[of example_alumni "[''College of Business'']"
             "[''2014-2015 FALL'']" "''all''" "''all''" None]
  from w[THEN conjunct2, rule_format, OF c] obtain stats where
    s: "get_workplace_statistics example_alumni [''College of Business'']
          [''2014-2015 FALL''] ''all'' ''all'' None = Inr stats" by blast
  from w[of stats, THEN conjunct1, rule_format, OF s]
  have p: "valid_entries stats + empty_entries stats = total_alumni stats" .
  show ?thesis
    using c s p example_workplace_counts by simp
qed

text \<open>
  Claim C4 fails for the workplace report. A request for a college that no record
  belongs to matches zero records, and \<^verbatim>\<open>process_workplace_report\<close> answers with a
  success whose workbook holds zero counts and empty sheets, where the QAA report and the
  alumni list (\<open>sibling_reports_without_match\<close> below) answer the same request with
  \<^verbatim>\<open>No matching data found for the given filters.\<close>
\<close>

theorem process_workplace_report_without_match:
  "process_workplace_report example_sessions ''alumni'' [''College of Medicine'']
     [''2014-2015 FALL''] ''all'' ''all'' (Some ''all'') =
   Success \<lparr>summary_total_alumni = 0, summary_valid_entries = 0, summary_empty_entries = 0,
            number_of_colleges = 1, years_covered = 1, degree_level = ''All'',
            empty_analysis = [], top_employers_sheet = [], top_positions_sheet = [],
            high_position_total = 0, high_position_percentage = 0, industry_sheet = []\<rparr>"
  by code_simp

lemma sibling_reports_without_match:
  "process_qaa_report example_sessions ''alumni'' [''College of Medicine''] [''2014-2015 FALL'']
     ''all'' True True ''all'' (Some ''all'') ''detailed'' =
     Error ''No matching data found for the given filters.''"
  "map_response length
     (fst (process_alumni_list example_sessions ''alumni'' [''College of Medicine'']
        [''2014-2015 FALL''] [''Employed''] ''all'' (Some ''all'') ''all'')) =
     Error ''No matching data found for the given filters.''"
  by code_simp+

text \<open>
  Claim C9 fails for the detailed QAA report and for the alumni list. On the dataset
  without a \<^verbatim>\<open>Nationality\<close> column the option \<^verbatim>\<open>saudi\<close> makes both read the missing
  column; the \<^verbatim>\<open>KeyError\<close> is caught and the request ends with an error. Only the
  workplace statistics skip the filter, keep all three records and print the warning.
\<close>

theorem missing_nationality_fails_qaa_report:
  "process_qaa_report example_sessions ''plain'' [''College of Business''] [''2014-2015 FALL'']
     ''all'' True True ''all'' (Some ''saudi'') ''detailed'' =
     Error (''Error generating QAA report: '' @ [CHR 0x27] @ ''Nationality'' @ [CHR 0x27]) \<and>
   map_response length
     (fst (process_alumni_list example_sessions ''plain'' [''College of Business'']
        [''2014-2015 FALL''] [''Employed''] ''all'' (Some ''saudi'') ''all'')) =
     Error (''Error generating alumni list: '' @ [CHR 0x27] @ ''Nationality'' @ [CHR 0x27]) \<and>
   workplace_warnings example_without_nationality (Some ''saudi'') =
     [''Warning: Nationality column not found, nationality filter ignored''] \<and>
   map_sum id total_alumni
     (get_workplace_statistics example_without_nationality [''College of Business'']
        [''2014-2015 FALL''] ''all'' ''all'' (Some ''saudi'')) = Inr 3"
  by code_simp

lemma need_append:
  "need df (xs @ ys) = (case need df xs of Some e \<Rightarrow> Some e | None \<Rightarrow> need df ys)"
  by (induction xs) auto

lemma lower_nonempty: "lower opt = c # cs \<Longrightarrow> opt \<noteq> []"
  by (auto simp: lower_def)

lemma option_is_non_saudi:
  assumes "lower opt = ''non-saudi''"
  shows "option_is (Some opt) ''non-saudi''" "\<not> option_is (Some opt) ''saudi''"
  using assms lower_nonempty[of opt] by (auto simp: option_is_def)

lemma option_is_saudi:
  assumes "lower opt = ''saudi''"
  shows "option_is (Some opt) ''saudi''"
  using assms lower_nonempty[of opt] by (auto simp: option_is_def)

lemma option_is_None: "\<not> option_is None v"
  by (simp add: option_is_def)

lemma nationality_filter_cases:
  "lower opt = ''non-saudi'' \<Longrightarrow>
     nationality_filter (Some opt) = (\<lambda>r. strip (r ''Nationality'') \<noteq> ''Saudi Arabia'')"
  "lower sopt = ''saudi'' \<Longrightarrow>
     nationality_filter (Some sopt) = (\<lambda>r. strip (r ''Nationality'') = ''Saudi Arabia'')"
  "nationality_filter None = (\<lambda>r. True)"
  by (auto simp: nationality_filter_def option_is_non_saudi option_is_saudi option_is_None
           intro!: ext)

lemma nationality_columns_cases:
  "lower opt = ''non-saudi'' \<Longrightarrow> nationality_columns (Some opt) = [''Nationality'']"
  "lower sopt = ''saudi'' \<Longrightarrow> nationality_columns (Some sopt) = [''Nationality'']"
  "nationality_columns None = []"
  by (auto simp: nationality_columns_def option_is_non_saudi option_is_saudi option_is_None)

lemma need_with_nationality:
  assumes "''Nationality'' \<in> set (columns df)"
  shows "need df (xs @ [''Nationality'']) = need df xs"
  using assms by (simp add: need_append split: option.splits)

lemma qaa_filter_detailed:
  assumes "mode_option \<noteq> ''simple''"
  shows "qaa_filter df colleges years degree_option gender_option nopt mode_option =
         (case need df (([''Current Status'', ''_College'', ''_Year''] @
                         degree_columns degree_option @ gender_columns gender_option) @
                        nationality_columns nopt) of
            Some e \<Rightarrow> Inl e
          | None \<Rightarrow>
              Inr (filter (degree_filter degree_option)
                     (filter (\<lambda>r. r ''_Year'' \<in> set years)
                        (filter (\<lambda>r. r ''_College'' \<in> set colleges)
                           (map clean_status_column (rows df)))),
                   filter (nationality_filter nopt)
                     (filter (gender_filter gender_option)
                        (filter (degree_filter degree_option)
                           (filter (\<lambda>r. r ''_Year'' \<in> set years)
                              (filter (\<lambda>r. r ''_College'' \<in> set colleges)
                                 (map clean_status_column (rows df))))))))"
  using assms by (simp add: qaa_filter_def Let_def del: filter_filter split: option.splits)

lemma qaa_filter_nationality:
  assumes n: "''Nationality'' \<in> set (columns df)"
    and c: "nationality_columns nopt = [''Nationality'']"
    and m: "mode_option \<noteq> ''simple''"
    and b: "qaa_filter df colleges years degree_option gender_option None mode_option =
            Inr (everyone, base)"
  shows "qaa_filter df colleges years degree_option gender_option nopt mode_option =
         Inr (everyone, filter (nationality_filter nopt) base)"
proof -
  let ?cols = "[''Current Status'', ''_College'', ''_Year''] @ degree_columns degree_option @
               gender_columns gender_option"
  have e: "need df (?cols @ [''Nationality'']) = need df ?cols"
    by (rule need_with_nationality[OF n])
  show ?thesis
  proof (cases "need df ?cols")
    case None
    with b m show ?thesis
      unfolding qaa_filter_detailed[OF m] c e nationality_columns_cases(3)
      by (auto simp add: nationality_filter_cases(3) simp del: filter_filter)
  next
    case (Some err)
    with b m show ?thesis
      unfolding qaa_filter_detailed[OF m] nationality_columns_cases(3) by simp
  qed
qed

lemma alumni_filter_unfold:
  "alumni_filter df colleges years allowed_statuses gender_option nopt degree_option =
     (case need df (([''Current Status'', ''College'', ''Year/Semester of Graduation''] @
                     degree_columns degree_option @ gender_columns gender_option) @
                    nationality_columns nopt) of
        Some e \<Rightarrow> Inl e
      | None \<Rightarrow>
          Inr (filter (\<lambda>r. r ''Current Status'' \<in>
                              set (map (\<lambda>status. clean_status (PyStr status)) allowed_statuses))
                 (filter (nationality_filter nopt)
                    (filter (gender_filter gender_option)
                       (filter (degree_filter degree_option)
                          (filter (\<lambda>r. strip (r ''Year/Semester of Graduation'') \<in> set years)
                             (filter (\<lambda>r. strip (r ''College'') \<in> set colleges)
                                (map clean_status_column (rows df)))))))))"
  by (simp add: alumni_filter_def del: filter_filter split: option.splits)

lemma filter_swap: "filter P (filter Q xs) = filter Q (filter P xs)"
  by (simp add: conj_commute)

lemma alumni_filter_nationality:
  assumes n: "''Nationality'' \<in> set (columns df)"
    and c: "nationality_columns nopt = [''Nationality'']"
    and b: "alumni_filter df colleges years allowed_statuses gender_option None degree_option =
            Inr base"
  shows "alumni_filter df colleges years allowed_statuses gender_option nopt degree_option =
         Inr (filter (nationality_filter nopt) base)"
proof -
  let ?cols = "[''Current Status'', ''College'', ''Year/Semester of Graduation''] @
               degree_columns degree_option @ gender_columns gender_option"
  have e: "need df (?cols @ [''Nationality'']) = need df ?cols"
    by (rule need_with_nationality[OF n])
  show ?thesis
  proof (cases "need df ?cols")
    case None
    with b show ?thesis
      unfolding alumni_filter_unfold c e nationality_columns_cases(3)
      by (clarsimp simp add: nationality_filter_cases(3) simp del: filter_filter)
         (rule filter_swap)
  next
    case (Some err)
    with b show ?thesis
      unfolding alumni_filter_unfold nationality_columns_cases(3) by simp
  qed
qed

text \<open>
  Claim C8 (amended). On a dataset with a \<^verbatim>\<open>Nationality\<close> column, the QAA report outside
  simple mode and the alumni list keep, under the option \<^verbatim>\<open>non-saudi\<close> (in any letter
  case), exactly the records of the unrestricted selection whose trimmed nationality
  differs from \<^verbatim>\<open>Saudi Arabia\<close>, the complement of what \<^verbatim>\<open>saudi\<close> keeps. The QAA report
  in simple mode ignores the option.
\<close>

theorem non_saudi_keeps_complement:
  assumes "''Nationality'' \<in> set (columns df)"
    and "lower opt = ''non-saudi''" and "lower sopt = ''saudi''"
  shows
    "(mode_option \<noteq> ''simple'' \<and>
      qaa_filter df colleges years degree_option gender_option None mode_option =
        Inr (everyone, base) \<longrightarrow>
      qaa_filter df colleges years degree_option gender_option (Some opt) mode_option =
        Inr (everyone, filter (\<lambda>r. strip (r ''Nationality'') \<noteq> ''Saudi Arabia'') base) \<and>
      qaa_filter df colleges years degree_option gender_option (Some sopt) mode_option =
        Inr (everyone, filter (\<lambda>r. strip (r ''Nationality'') = ''Saudi Arabia'') base)) \<and>
     (alumni_filter df colleges years allowed_statuses gender_option None degree_option =
        Inr listed \<longrightarrow>
      alumni_filter df colleges years allowed_statuses gender_option (Some opt) degree_option =
        Inr (filter (\<lambda>r. strip (r ''Nationality'') \<noteq> ''Saudi Arabia'') listed) \<and>
      alumni_filter df colleges years allowed_statuses gender_option (Some sopt) degree_option =
        Inr (filter (\<lambda>r. strip (r ''Nationality'') = ''Saudi Arabia'') listed)) \<and>
     qaa_filter df colleges years degree_option gender_option (Some opt) ''simple'' =
       qaa_filter df colleges years degree_option gender_option None ''simple''"
proof (intro conjI impI)
  assume a: "mode_option \<noteq> ''simple'' \<and>
      qaa_filter df colleges years degree_option gender_option None mode_option =
        Inr (everyone, base)"
  show "qaa_filter df colleges years degree_option gender_option (Some opt) mode_option =
        Inr (everyone, filter (\<lambda>r. strip (r ''Nationality'') \<noteq> ''Saudi Arabia'') base)"
    using qaa_filter_nationality[OF assms(1) nationality_columns_cases(1)[OF assms(2)]] a
    by (simp add: nationality_filter_cases(1)[OF assms(2)])
  show "qaa_filter df colleges years degree_option gender_option (Some sopt) mode_option =
        Inr (everyone, filter (\<lambda>r. strip (r ''Nationality'') = ''Saudi Arabia'') base)"
    using qaa_filter_nationality[OF assms(1) nationality_columns_cases(2)[OF assms(3)]] a
    by (simp add: nationality_filter_cases(2)[OF assms(3)])
next
  assume a: "alumni_filter df colleges years allowed_statuses gender_option None degree_option =
        Inr listed"
  show "alumni_filter df colleges years allowed_statuses gender_option (Some opt) degree_option =
        Inr (filter (\<lambda>r. strip (r ''Nationality'') \<noteq> ''Saudi Arabia'') listed)"
    using alumni_filter_nationality[OF assms(1) nationality_columns_cases(1)[OF assms(2)] a]
    by (simp add: nationality_filter_cases(1)[OF assms(2)])
  show "alumni_filter df colleges years allowed_statuses gender_option (Some sopt) degree_option =
        Inr (filter (\<lambda>r. strip (r ''Nationality'') = ''Saudi Arabia'') listed)"
    using alumni_filter_nationality[OF assms(1) nationality_columns_cases(2)[OF assms(3)] a]
    by (simp add: nationality_filter_cases(2)[OF assms(3)])
next
  show "qaa_filter df colleges years degree_option gender_option (Some opt) ''simple'' =
       qaa_filter df colleges years degree_option gender_option None ''simple''"
    by (simp add: qaa_filter_def)
qed

lemma example_qaa_selection:
  "map_sum id (\<lambda>p. (length (fst p), length (snd p)))
     (qaa_filter example_alumni [''College of Business''] [''2014-2015 FALL''] ''all'' ''all''
        None ''detailed'') = Inr (3, 3)"
  "map_sum id (\<lambda>p. map (\<lambda>r. r ''Student ID'') (snd p))
     (qaa_filter example_alumni [''College of Business''] [''2014-2015 FALL''] ''all'' ''all''
        (Some ''Non-Saudi'') ''detailed'') = Inr [''1002'']"
  by code_simp+

text \<open>
  On the example the unrestricted selection of the detailed QAA report has three records
  and the option \<^verbatim>\<open>Non-Saudi\<close> keeps the one with nationality \<^verbatim>\<open>Egypt\<close>.
\<close>

theorem non_saudi_keeps_complement_witness:
  "''Nationality'' \<in> set (columns example_alumni) \<and>
   lower ''Non-Saudi'' = ''non-saudi'' \<and> lower ''Saudi'' = ''saudi'' \<and>
   (\<exists>everyone base.
      qaa_filter example_alumni [''College of Business''] [''2014-2015 FALL''] ''all'' ''all''
        None ''detailed'' = Inr (everyone, base) \<and>
      length base = 3 \<and>
      qaa_filter example_alumni [''College of Business''] [''2014-2015 FALL''] ''all'' ''all''
        (Some ''Non-Saudi'') ''detailed'' =
        Inr (everyone, filter (\<lambda>r. strip (r ''Nationality'') \<noteq> ''Saudi Arabia'') base) \<and>
      map (\<lambda>r. r ''Student ID'')
        (filter (\<lambda>r. strip (r ''Nationality'') \<noteq> ''Saudi Arabia'') base) = [''1002''])"
proof -
  have n: "''Nationality'' \<in> set (columns example_alumni)"
    by (simp add: example_alumni_def)
  have o: "lower ''Non-Saudi'' = ''non-saudi''" and s: "lower ''Saudi'' = ''saudi''"
    by code_simp+
  obtain everyone base where
    b: "qaa_filter example_alumni [''College of Business''] [''2014-2015 FALL''] ''all'' ''all''
          None ''detailed'' = Inr (everyone, base)"
    using example_qaa_selection(1)
    by (cases "qaa_filter example_alumni [''College of Business''] [''2014-2015 FALL''] ''all''
                 ''all'' None ''detailed''") auto
  have d: "''detailed'' \<noteq> ''simple''" by simp
  from non_saudi_keeps_complement[OF n o s, of "''detailed''" "[''College of Business'']"
         "[''2014-2015 FALL'']" "''all''" "''all''" everyone base]
  have k: "qaa_filter example_alumni [''College of Business''] [''2014-2015 FALL''] ''all'' ''all''
        (Some ''Non-Saudi'') ''detailed'' =
        Inr (everyone, filter (\<lambda>r. strip (r ''Nationality'') \<noteq> ''Saudi Arabia'') base)"
    using b d by blast
  have l: "length base = 3" using example_qaa_selection(1) b by simp
  have m: "map (\<lambda>r. r ''Student ID'')
        (filter (\<lambda>r. strip (r ''Nationality'') \<noteq> ''Saudi Arabia'') base) = [''1002'']"
    using example_qaa_selection(2) k by simp
  show ?thesis
    by (intro conjI exI[where x = everyone] exI[where x = base]) (fact n o s b l k m)+
qed

text \<open>
  Claim C8 as stated fails on the example: the workplace statistics and the QAA report
  in simple mode keep all three records under the option \<^verbatim>\<open>non-saudi\<close>, although only
  one record has a nationality other than \<^verbatim>\<open>Saudi Arabia\<close>.
\<close>

theorem non_saudi_ignored_outside_detailed_reports:
  "map_sum id total_alumni
     (get_workplace_statistics example_alumni [''College of Business''] [''2014-2015 FALL'']
        ''all'' ''all'' (Some ''non-saudi'')) = Inr 3 \<and>
   map_sum id (length \<circ> snd)
     (qaa_filter example_alumni [''College of Business''] [''2014-2015 FALL''] ''all'' ''all''
        (Some ''non-saudi'') ''simple'') = Inr 3 \<and>
   length (filter (nationality_filter (Some ''non-saudi'')) (rows example_alumni)) = 1"
  by code_simp

section \<open>Properties of the Banner roster diff\<close>

lemma rows_strip_student_ids:
  "rows (strip_student_ids df) = map (\<lambda>r. r(''Student ID'' := strip (r ''Student ID''))) (rows df)"
  "columns (strip_student_ids df) = columns df"
  by (simp_all add: strip_student_ids_def)

lemma student_ids_stripped:
  "student_ids (strip_student_ids df) = map (\<lambda>r. strip (r ''Student ID'')) (rows df)"
  by (simp add: student_ids_def strip_student_ids_def)

lemma length_new_students:
  "length (new_students_df (strip_student_ids banner) (strip_student_ids alumni)) =
   length (filter (\<lambda>r. strip (r ''Student ID'') \<notin>
                          set (map (\<lambda>r. strip (r ''Student ID'')) (rows alumni)))
             (rows banner))"
proof -
  have "length (new_students_df (strip_student_ids banner) (strip_student_ids alumni)) =
        length (filter (\<lambda>r. strip (r ''Student ID'') \<in>
                               set (map (\<lambda>r. strip (r ''Student ID'')) (rows banner)) -
                               set (map (\<lambda>r. strip (r ''Student ID'')) (rows alumni)))
                  (rows banner))"
    by (simp add: new_students_df_def student_ids_stripped rows_strip_student_ids
                  filter_map comp_def)
  also have "\<dots> = length (filter (\<lambda>r. strip (r ''Student ID'') \<notin>
                          set (map (\<lambda>r. strip (r ''Student ID'')) (rows alumni)))
             (rows banner))"
    by (rule arg_cong[where f = length], rule filter_cong) auto
  finally show ?thesis .
qed

lemma length_filter_distinct:
  assumes "distinct (map f xs)"
  shows "length (filter (\<lambda>x. f x \<notin> A) xs) = card (set (map f xs) - A)"
proof -
  have "distinct (filter (\<lambda>y. y \<notin> A) (map f xs))"
    using assms by simp
  then have "card (set (filter (\<lambda>y. y \<notin> A) (map f xs))) =
             length (filter (\<lambda>y. y \<notin> A) (map f xs))"
    by (rule distinct_card)
  moreover have "length (filter (\<lambda>y. y \<notin> A) (map f xs)) =
                 length (filter (\<lambda>x. f x \<notin> A) xs)"
    by (simp add: filter_map comp_def)
  moreover have "set (filter (\<lambda>y. y \<notin> A) (map f xs)) = set (map f xs) - A"
    by auto
  ultimately show ?thesis by simp
qed

text \<open>
  Claim C6 (amended). When both sessions exist, both frames have a \<^verbatim>\<open>Student ID\<close>
  column and the Banner frame a \<^verbatim>\<open>Student Name\<close> column, the integration succeeds and
  \<open>new_records\<close> is the number of Banner rows whose trimmed identifier is not a trimmed
  Alumni identifier. It is the cardinality of the set difference of the identifiers
  when no identifier occurs twice in the Banner frame.
\<close>

theorem banner_new_records_count:
  assumes "session_data banner_session_id = Some banner_entry"
    and "session_data alumni_session_id = Some alumni_entry"
    and "''Student ID'' \<in> set (columns (data banner_entry))"
    and "''Student ID'' \<in> set (columns (data alumni_entry))"
    and "''Student Name'' \<in> set (columns (data banner_entry))"
  shows "\<exists>result session_data'.
           process_banner_integration session_data banner_session_id alumni_session_id
             current_date = (Success result, session_data') \<and>
           new_records result =
             length (filter (\<lambda>r. strip (r ''Student ID'') \<notin>
                                    set (map (\<lambda>r. strip (r ''Student ID''))
                                           (rows (data alumni_entry))))
                       (rows (data banner_entry))) \<and>
           (distinct (map (\<lambda>r. strip (r ''Student ID'')) (rows (data banner_entry))) \<longrightarrow>
            new_records result =
              card (set (map (\<lambda>r. strip (r ''Student ID'')) (rows (data banner_entry))) -
                    set (map (\<lambda>r. strip (r ''Student ID'')) (rows (data alumni_entry)))))"
proof -
  let ?new = "new_students_df (strip_student_ids (data banner_entry))
                (strip_student_ids (data alumni_entry))"
  let ?count = "length (filter (\<lambda>r. strip (r ''Student ID'') \<notin>
                                    set (map (\<lambda>r. strip (r ''Student ID''))
                                           (rows (data alumni_entry))))
                       (rows (data banner_entry)))"
  have len: "length ?new = ?count" by (rule length_new_students)
  have "\<exists>result session_data'.
           process_banner_integration session_data banner_session_id alumni_session_id
             current_date = (Success result, session_data') \<and> new_records result = length ?new"
    using assms
    by (cases "List.null ?new")
       (simp_all add: process_banner_integration_def Let_def rows_strip_student_ids(2)
                      List.null_iff)
  then obtain result session_data' where
    r: "process_banner_integration session_data banner_session_id alumni_session_id
          current_date = (Success result, session_data')"
    and n: "new_records result = ?count"
    using len by auto
  have "distinct (map (\<lambda>r. strip (r ''Student ID'')) (rows (data banner_entry))) \<longrightarrow>
        ?count = card (set (map (\<lambda>r. strip (r ''Student ID'')) (rows (data banner_entry))) -
                    set (map (\<lambda>r. strip (r ''Student ID'')) (rows (data alumni_entry))))"
    using length_filter_distinct[of "\<lambda>r. strip (r ''Student ID'')" "rows (data banner_entry)"]
    by blast
  with r n show ?thesis by (intro exI[where x = result] exI[where x = session_data']) simp
qed

lemma example_banner_run:
  "map_response new_records
     (fst (process_banner_integration example_sessions ''banner'' ''alumni'' ''2026-01-01'')) =
   Success 2"
  "card (set (map (\<lambda>r. strip (r ''Student ID'')) (rows example_banner)) -
         set (map (\<lambda>r. strip (r ''Student ID'')) (rows example_alumni))) = 1"
  "length (filter (\<lambda>r. strip (r ''Student ID'') \<notin>
                         set (map (\<lambda>r. strip (r ''Student ID'')) (rows example_alumni)))
             (rows example_banner)) = 2"
  by code_simp+

text \<open>
  Claim C6 as stated fails on the example roster: the identifier \<^verbatim>\<open>2001\<close> occurs on two
  Banner rows and is not an Alumni identifier, so two new records are reported while the
  set difference has one element.
\<close>

theorem banner_duplicates_counted_twice:
  "map_response new_records
     (fst (process_banner_integration example_sessions ''banner'' ''alumni'' ''2026-01-01'')) =
     Success 2 \<and>
   card (set (student_ids (strip_student_ids example_banner)) -
         set (student_ids (strip_student_ids example_alumni))) = 1"
  by code_simp

text \<open>
  On the roster without the repeated row the identifiers are distinct, one new record
  is reported and the set difference has one element.
\<close>

theorem banner_new_records_count_witness:
  "example_roster_sessions ''roster'' = Some example_roster_entry \<and>
   example_roster_sessions ''alumni'' =
     Some \<lparr>data = example_alumni, file_name = ''alumni.xlsx''\<rparr> \<and>
   ''Student ID'' \<in> set (columns (data example_roster_entry)) \<and>
   ''Student ID'' \<in> set (columns example_alumni) \<and>
   ''Student Name'' \<in> set (columns (data example_roster_entry)) \<and>
   distinct (map (\<lambda>r. strip (r ''Student ID'')) (rows (data example_roster_entry))) \<and>
   (\<exists>result session_data'.
      process_banner_integration example_roster_sessions ''roster'' ''alumni'' ''2026-01-01'' =
        (Success result, session_data') \<and>
      new_records result = 1 \<and>
      new_records result =
        card (set (map (\<lambda>r. strip (r ''Student ID'')) (rows (data example_roster_entry))) -
              set (map (\<lambda>r. strip (r ''Student ID'')) (rows example_alumni))))"
proof -
  have b: "example_roster_sessions ''roster'' = Some example_roster_entry"
    and a: "example_roster_sessions ''alumni'' =
           Some \<lparr>data = example_alumni, file_name = ''alumni.xlsx''\<rparr>"
    by (simp_all add: example_roster_sessions_def example_sessions_def)
  have c: "''Student ID'' \<in> set (columns (data example_roster_entry))"
    "''Student ID'' \<in> set (columns example_alumni)"
    "''Student Name'' \<in> set (columns (data example_roster_entry))"
    by (simp_all add: example_roster_entry_def example_banner_def example_alumni_def)
  have d: "distinct (map (\<lambda>r. strip (r ''Student ID'')) (rows (data example_roster_entry)))"
    by code_simp
  have n: "length (filter (\<lambda>r. strip (r ''Student ID'') \<notin>
                         set (map (\<lambda>r. strip (r ''Student ID'')) (rows example_alumni)))
             (rows (data example_roster_entry))) = 1"
    by code_simp
  from banner_new_records_count[OF b a, of "''2026-01-01''"] c
  obtain result session_data' where r:
    "process_banner_integration example_roster_sessions ''roster'' ''alumni'' ''2026-01-01'' =
        (Success result, session_data')"
    "new_records result =
       length (filter (\<lambda>r. strip (r ''Student ID'') \<notin>
                              set (map (\<lambda>r. strip (r ''Student ID'')) (rows example_alumni)))
                 (rows (data example_roster_entry)))"
    "distinct (map (\<lambda>r. strip (r ''Student ID'')) (rows (data example_roster_entry))) \<longrightarrow>
     new_records result =
        card (set (map (\<lambda>r. strip (r ''Student ID'')) (rows (data example_roster_entry))) -
              set (map (\<lambda>r. strip (r ''Student ID'')) (rows example_alumni)))"
    by auto
  from r(2) n have one: "new_records result = 1" by simp
  from r(3) d have eq: "new_records result =
        card (set (map (\<lambda>r. strip (r ''Student ID'')) (rows (data example_roster_entry))) -
              set (map (\<lambda>r. strip (r ''Student ID'')) (rows example_alumni)))" by simp
  show ?thesis
    by (intro conjI exI[where x = result] exI[where x = session_data'])
       (fact a b c d r(1) one eq)+
qed

end
